theory Spec2Isabelle
  imports Complex_Main
begin

section \<open>Contour border synthesis (lib/contour-border)\<close>

text \<open>
  The module draws a hand-drawn dotted border around a cut-out image with the 2d canvas
  API only: two rescaled copies of the image (inner, outer), their alpha difference (the
  ring), and a random stencil of dots and dashes intersected with the ring.

  JavaScript numbers are modelled as exact reals (no rounding of doubles, no NaN), canvas
  dimensions and pixel coordinates as naturals, a pixel as four 8-bit channels.  What the
  module leaves to the browser (decoding an image, resampling in a scaled
  \<^verbatim>\<open>drawImage\<close>, rasterising arcs and lines, parsing a CSS colour, handing out a 2d
  context) is a field of the record \<open>browser\<close>; \<^verbatim>\<open>Math.random\<close> is a tape of numbers
  that every effectful function threads.
\<close>

subsection \<open>Pixels and compositing\<close>

record rgba =
  red :: nat
  green :: nat
  blue :: nat
  alpha :: nat

definition transparent :: rgba where
  "transparent = \<lparr>red = 0, green = 0, blue = 0, alpha = 0\<rparr>"

text \<open>Product of two 8-bit coverages, rounded to the nearest 8-bit value.\<close>

definition mul255 :: "nat \<Rightarrow> nat \<Rightarrow> nat" where
  "mul255 a b = (a * b + 127) div 255"

text \<open>A canvas stores premultiplied colour: a pixel of alpha 0 carries no colour.\<close>

definition with_alpha :: "rgba \<Rightarrow> nat \<Rightarrow> rgba" where
  "with_alpha c a = (if a = 0 then transparent else c\<lparr>alpha := a\<rparr>)"

datatype composite = SourceOver | DestinationOut | SourceIn | DestinationIn

definition mix :: "nat \<Rightarrow> nat \<Rightarrow> nat \<Rightarrow> nat \<Rightarrow> nat \<Rightarrow> nat" where
  "mix cs as cd ad ar =
     (if ar = 0 then 0
      else min 255 ((cs * as * 255 + cd * ad * (255 - as)) div (ar * 255)))"

text \<open>
  \<open>blend op s d\<close>: the pixel left in the destination when source pixel \<open>s\<close> is
  composited onto destination pixel \<open>d\<close> under \<^verbatim>\<open>globalCompositeOperation = op\<close>
  (Porter-Duff on 8-bit alpha).
\<close>

fun blend :: "composite \<Rightarrow> rgba \<Rightarrow> rgba \<Rightarrow> rgba" where
  "blend SourceOver s d =
     (let ar = alpha s + mul255 (alpha d) (255 - alpha s)
      in with_alpha
           \<lparr>red = mix (red s) (alpha s) (red d) (alpha d) ar,
            green = mix (green s) (alpha s) (green d) (alpha d) ar,
            blue = mix (blue s) (alpha s) (blue d) (alpha d) ar,
            alpha = ar\<rparr> ar)"
| "blend DestinationOut s d = with_alpha d (mul255 (alpha d) (255 - alpha s))"
| "blend SourceIn s d = with_alpha s (mul255 (alpha s) (alpha d))"
| "blend DestinationIn s d = with_alpha d (mul255 (alpha d) (alpha s))"

subsection \<open>Canvases\<close>

record canvas =
  width :: nat
  height :: nat
  px :: "nat \<Rightarrow> nat \<Rightarrow> rgba"

text \<open>\<^verbatim>\<open>document.createElement('canvas')\<close> with its size set, then \<^verbatim>\<open>clearRect\<close>.\<close>

definition createCanvas :: "nat \<Rightarrow> nat \<Rightarrow> canvas" where
  "createCanvas w h = \<lparr>width = w, height = h, px = (\<lambda>x y. transparent)\<rparr>"

text \<open>
  Every drawing call composites a source layer, one source pixel per canvas pixel
  (transparent where the call paints nothing), onto the whole canvas.
\<close>

definition paint :: "composite \<Rightarrow> (nat \<Rightarrow> nat \<Rightarrow> rgba) \<Rightarrow> canvas \<Rightarrow> canvas" where
  "paint op layer dst =
     dst\<lparr>px := (\<lambda>x y. if x < width dst \<and> y < height dst
                        then blend op (layer x y) (px dst x y) else transparent)\<rparr>"

text \<open>A rectangle \<open>(x, y, w, h)\<close> in canvas coordinates.\<close>

type_synonym rect = "real \<times> real \<times> real \<times> real"

datatype error =
    ImageLoadFailed
  | NoMaskContext
  | NoInnerContext
  | NoOuterContext
  | NoCanvasContext
  | NoStencilContext
  | NoFinalContext
  | IndexSizeError
  | TypeError

record browser =
  loadImage :: "string \<Rightarrow> canvas option"
  getContext :: "nat \<Rightarrow> nat \<Rightarrow> bool"
  resample :: "canvas \<Rightarrow> rect \<Rightarrow> rect \<Rightarrow> nat \<Rightarrow> nat \<Rightarrow> rgba"
  parseColor :: "string \<Rightarrow> rgba option"
  fillArc :: "real \<Rightarrow> real \<Rightarrow> real \<Rightarrow> nat \<Rightarrow> nat \<Rightarrow> nat"
  strokeLine :: "real \<Rightarrow> real \<times> real \<Rightarrow> real \<times> real \<Rightarrow> nat \<Rightarrow> nat \<Rightarrow> nat"
  serializes :: "nat \<Rightarrow> nat \<Rightarrow> bool"

text \<open>
  \<open>loadImage\<close>: the decoded image of a URL, \<open>None\<close> when \<^verbatim>\<open>onerror\<close> fires.
  \<open>getContext w h\<close>: whether \<^verbatim>\<open>getContext('2d')\<close> on a canvas of that size is non-null.
  \<open>resample src sr dr x y\<close>: the source pixel that a \<^verbatim>\<open>drawImage\<close> of rectangle \<open>sr\<close> of
  \<open>src\<close> into rectangle \<open>dr\<close> puts at canvas pixel \<open>(x, y)\<close>.
  \<open>parseColor\<close>: a CSS colour, \<open>None\<close> when the string is not one.
  \<open>fillArc cx cy r x y\<close>, \<open>strokeLine lw p q x y\<close>: the 8-bit coverage of pixel \<open>(x, y)\<close>
  by a filled circle and by a round-capped line of width \<open>lw\<close>.
  \<open>serializes w h\<close>: whether a bitmap of that size can be serialised to a file; a canvas
  above the browser's size limit cannot.
\<close>

text \<open>\<^verbatim>\<open>ctx.drawImage(src, sx, sy, sw, sh, dx, dy, dw, dh)\<close>\<close>

definition drawImage9 ::
  "browser \<Rightarrow> composite \<Rightarrow> canvas \<Rightarrow> rect \<Rightarrow> rect \<Rightarrow> canvas \<Rightarrow> canvas" where
  "drawImage9 b op src sr dr dst = paint op (resample b src sr dr) dst"

text \<open>\<^verbatim>\<open>ctx.drawImage(img, dx, dy, dw, dh)\<close>: the whole image is the source rectangle.\<close>

definition drawImage5 ::
  "browser \<Rightarrow> composite \<Rightarrow> canvas \<Rightarrow> real \<Rightarrow> real \<Rightarrow> real \<Rightarrow> real \<Rightarrow> canvas \<Rightarrow> canvas" where
  "drawImage5 b op img dx dy dw dh dst =
     drawImage9 b op img (0, 0, real (width img), real (height img)) (dx, dy, dw, dh) dst"

text \<open>
  \<^verbatim>\<open>ctx.drawImage(src, dx, dy)\<close> at a whole-pixel offset: an unscaled copy, pixel for
  pixel.
\<close>

definition drawImage3 :: "composite \<Rightarrow> canvas \<Rightarrow> nat \<Rightarrow> nat \<Rightarrow> canvas \<Rightarrow> canvas" where
  "drawImage3 op src dx dy dst =
     paint op (\<lambda>x y. if dx \<le> x \<and> dy \<le> y \<and> x - dx < width src \<and> y - dy < height src
                      then px src (x - dx) (y - dy) else transparent) dst"

text \<open>
  \<^verbatim>\<open>ctx.fillStyle = s\<close>: an invalid colour string is ignored and the style keeps its
  initial value, opaque black.
\<close>

definition fillStyle :: "browser \<Rightarrow> string \<Rightarrow> rgba" where
  "fillStyle b s =
     (case parseColor b s of
        None \<Rightarrow> \<lparr>red = 0, green = 0, blue = 0, alpha = 255\<rparr>
      | Some c \<Rightarrow> c)"

text \<open>\<^verbatim>\<open>ctx.fillRect(x, y, w, h)\<close> on whole-pixel bounds.\<close>

definition fillRect ::
  "composite \<Rightarrow> rgba \<Rightarrow> nat \<Rightarrow> nat \<Rightarrow> nat \<Rightarrow> nat \<Rightarrow> canvas \<Rightarrow> canvas" where
  "fillRect op c x0 y0 w h dst =
     paint op (\<lambda>x y. if x0 \<le> x \<and> x < x0 + w \<and> y0 \<le> y \<and> y < y0 + h
                      then c else transparent) dst"

text \<open>
  \<^verbatim>\<open>ctx.getImageData(sx, sy, sw, sh)\<close>: an IndexSizeError when a side is zero; pixels
  outside the canvas read as transparent black.
\<close>

definition getImageData :: "canvas \<Rightarrow> nat \<Rightarrow> nat \<Rightarrow> nat \<Rightarrow> nat \<Rightarrow> error + canvas" where
  "getImageData c sx sy sw sh =
     (if sw = 0 \<or> sh = 0 then Inl IndexSizeError
      else Inr \<lparr>width = sw, height = sh,
                px = (\<lambda>x y. if x < sw \<and> y < sh \<and> sx + x < width c \<and> sy + y < height c
                             then px c (sx + x) (sy + y) else transparent)\<rparr>)"

subsection \<open>Options\<close>

text \<open>
  \<^verbatim>\<open>ContourBorderOptions\<close>: every field is optional (\<open>None\<close>: the property is absent).
\<close>

record ContourBorderOptions =
  color :: "string option"
  borderScale :: "real option"
  gapPx :: "real option"
  strokePx :: "real option"
  lineLengthRange :: "(real \<times> real) option"
  dotSizeRange :: "(real \<times> real) option"
  spacing :: "real option"
  jitterAmount :: "real option"

text \<open>\<^verbatim>\<open>Required<ContourBorderOptions>\<close>, the type of the merged options \<^verbatim>\<open>opts\<close>.\<close>

record RequiredOptions =
  opts_color :: string
  opts_borderScale :: real
  opts_gapPx :: real
  opts_strokePx :: real
  opts_lineLengthRange :: "real \<times> real"
  opts_dotSizeRange :: "real \<times> real"
  opts_spacing :: real
  opts_jitterAmount :: real

definition DEFAULT_OPTIONS :: RequiredOptions where
  "DEFAULT_OPTIONS =
     \<lparr>opts_color = ''#ffffff'',
      opts_borderScale = 106 / 100,
      opts_gapPx = 10,
      opts_strokePx = 5,
      opts_lineLengthRange = (20, 40),
      opts_dotSizeRange = (3, 5),
      opts_spacing = 12,
      opts_jitterAmount = 15 / 10\<rparr>"

text \<open>The object spread \<^verbatim>\<open>{ ...defaults, ...options }\<close>: a present field wins.\<close>

definition spread :: "RequiredOptions \<Rightarrow> ContourBorderOptions \<Rightarrow> RequiredOptions" where
  "spread d options =
     \<lparr>opts_color = (case color options of None \<Rightarrow> opts_color d | Some v \<Rightarrow> v),
      opts_borderScale = (case borderScale options of None \<Rightarrow> opts_borderScale d | Some v \<Rightarrow> v),
      opts_gapPx = (case gapPx options of None \<Rightarrow> opts_gapPx d | Some v \<Rightarrow> v),
      opts_strokePx = (case strokePx options of None \<Rightarrow> opts_strokePx d | Some v \<Rightarrow> v),
      opts_lineLengthRange =
        (case lineLengthRange options of None \<Rightarrow> opts_lineLengthRange d | Some v \<Rightarrow> v),
      opts_dotSizeRange =
        (case dotSizeRange options of None \<Rightarrow> opts_dotSizeRange d | Some v \<Rightarrow> v),
      opts_spacing = (case spacing options of None \<Rightarrow> opts_spacing d | Some v \<Rightarrow> v),
      opts_jitterAmount =
        (case jitterAmount options of None \<Rightarrow> opts_jitterAmount d | Some v \<Rightarrow> v)\<rparr>"

subsection \<open>Randomness\<close>

text \<open>
  \<^verbatim>\<open>Math.random\<close> is a tape of numbers; a call reads the head and leaves the tail.  A
  browser's tape holds numbers in \<open>[0, 1)\<close>.
\<close>

type_synonym rng = "nat \<Rightarrow> real"

definition Math_random :: "rng \<Rightarrow> real \<times> rng" where
  "Math_random rng = (rng 0, (\<lambda>n. rng (Suc n)))"

definition unit_tape :: "rng \<Rightarrow> bool" where
  "unit_tape rng = (\<forall>n. 0 \<le> rng n \<and> rng n < 1)"

text \<open>\<^verbatim>\<open>function random(min, max)\<close>\<close>

definition random :: "real \<Rightarrow> real \<Rightarrow> rng \<Rightarrow> real \<times> rng" where
  "random mn mx rng = (case Math_random rng of (r, rng') \<Rightarrow> (r * (mx - mn) + mn, rng'))"

subsection \<open>createBorderMask\<close>

text \<open>
  The three silhouettes of steps 1 to 3, for an image \<open>img\<close> of size \<open>W \<times> H\<close> drawn in
  the middle of a canvas of size \<open>2W \<times> 2H\<close>.
\<close>

definition imageX :: "canvas \<Rightarrow> real" where
  "imageX img = (real (width img * 2) - real (width img)) / 2"

definition imageY :: "canvas \<Rightarrow> real" where
  "imageY img = (real (height img * 2) - real (height img)) / 2"

definition imageRect :: "canvas \<Rightarrow> rect" where
  "imageRect img = (imageX img, imageY img, real (width img), real (height img))"

definition innerRect :: "canvas \<Rightarrow> real \<Rightarrow> rect" where
  "innerRect img gap =
     (imageX img - gap, imageY img - gap,
      real (width img) + 2 * gap, real (height img) + 2 * gap)"

definition outerRect :: "canvas \<Rightarrow> real \<Rightarrow> real \<Rightarrow> rect" where
  "outerRect img gap stroke =
     (case innerRect img gap of (innerX, innerY, innerWidth, innerHeight) \<Rightarrow>
        (innerX - stroke, innerY - stroke, innerWidth + 2 * stroke, innerHeight + 2 * stroke))"

definition maskCanvas :: "browser \<Rightarrow> canvas \<Rightarrow> canvas" where
  "maskCanvas b img =
     drawImage5 b SourceOver img (imageX img) (imageY img) (real (width img)) (real (height img))
       (createCanvas (width img * 2) (height img * 2))"

definition innerCanvas :: "browser \<Rightarrow> canvas \<Rightarrow> real \<Rightarrow> canvas" where
  "innerCanvas b img gap =
     drawImage9 b SourceOver (maskCanvas b img) (imageRect img) (innerRect img gap)
       (createCanvas (width img * 2) (height img * 2))"

definition outerCanvas :: "browser \<Rightarrow> canvas \<Rightarrow> real \<Rightarrow> real \<Rightarrow> canvas" where
  "outerCanvas b img gap stroke =
     drawImage9 b SourceOver (innerCanvas b img gap) (innerRect img gap) (outerRect img gap stroke)
       (createCanvas (width img * 2) (height img * 2))"

text \<open>Steps 4 and 5: \<open>ring = outer - inner\<close>, then the ring filled with the colour.\<close>

definition ringCanvas :: "browser \<Rightarrow> canvas \<Rightarrow> RequiredOptions \<Rightarrow> canvas" where
  "ringCanvas b img opts =
     (let inner = innerCanvas b img (opts_gapPx opts);
          outer = outerCanvas b img (opts_gapPx opts) (opts_strokePx opts);
          ring = drawImage3 DestinationOut inner 0 0 outer
      in fillRect SourceIn (fillStyle b (opts_color opts)) 0 0
           (width img * 2) (height img * 2) ring)"

text \<open>
  The promise of \<^verbatim>\<open>createBorderMask\<close>: \<open>Inl\<close> is a rejection.  The two debug reads of
  \<^verbatim>\<open>getImageData\<close> are kept for the error they raise on an empty rectangle.  The function
  never calls \<^verbatim>\<open>Math.random\<close>: the tape comes back as it went in.
\<close>

definition createBorderMask ::
  "browser \<Rightarrow> string \<Rightarrow> ContourBorderOptions \<Rightarrow> rng \<Rightarrow> (error + canvas) \<times> rng" where
  "createBorderMask b imageUrl options rng =
     (case loadImage b imageUrl of
        None \<Rightarrow> (Inl ImageLoadFailed, rng)
      | Some img \<Rightarrow>
          (let opts = spread DEFAULT_OPTIONS options;
               imageWidth = width img;
               imageHeight = height img;
               canvasWidth = imageWidth * 2;
               canvasHeight = imageHeight * 2
           in if \<not> getContext b canvasWidth canvasHeight then (Inl NoMaskContext, rng)
              else
                (case getImageData (maskCanvas b img) (nat \<lfloor>imageX img\<rfloor>) (nat \<lfloor>imageY img\<rfloor>)
                        (min 10 imageWidth) (min 10 imageHeight) of
                   Inl e \<Rightarrow> (Inl e, rng)
                 | Inr maskSample \<Rightarrow>
                     if \<not> getContext b canvasWidth canvasHeight then (Inl NoInnerContext, rng)
                     else if \<not> getContext b canvasWidth canvasHeight
                     then (Inl NoOuterContext, rng)
                     else
                       (let ring = ringCanvas b img opts
                        in case getImageData ring 0 0 (min 50 canvasWidth) (min 50 canvasHeight) of
                             Inl e \<Rightarrow> (Inl e, rng)
                           | Inr borderSample \<Rightarrow> (Inr ring, rng)))))"

subsection \<open>applyHandDrawnEffect\<close>

text \<open>
  The sampled positions of a \<^verbatim>\<open>for (i = 0; i < n; i += step)\<close> loop, in order.
\<close>

definition strides :: "nat \<Rightarrow> nat \<Rightarrow> nat list" where
  "strides n step = map (\<lambda>i. i * step) [0..<(n + step - 1) div step]"

definition sampleRate :: "nat \<Rightarrow> nat \<Rightarrow> nat" where
  "sampleRate w h = max 4 (min w h div 200)"

text \<open>
  The candidate points \<^verbatim>\<open>contourRegions\<close>: the grid points of the ring's image data
  whose alpha is positive, rows first.
\<close>

definition contourRegions :: "canvas \<Rightarrow> nat \<Rightarrow> nat \<Rightarrow> nat \<Rightarrow> (nat \<times> nat) list" where
  "contourRegions borderData w h rate =
     concat (map (\<lambda>y. map (\<lambda>x. (x, y))
                         (filter (\<lambda>x. 0 < alpha (px borderData x y)) (strides w rate)))
                 (strides h rate))"

text \<open>The target number of primitives, \<^verbatim>\<open>density\<close>.\<close>

definition density :: "(nat \<times> nat) list \<Rightarrow> nat" where
  "density regions = max 500 (length regions * 3 div 10)"

definition dotRatio :: real where
  "dotRatio = 4 / 10"

text \<open>
  The stencil's context: its pixels and the current \<^verbatim>\<open>lineWidth\<close> (initially 1; an
  assignment of a value that is not positive is ignored by the canvas).
\<close>

record sctx =
  stencil :: canvas
  lineWidth :: real

definition white :: "browser \<Rightarrow> nat \<Rightarrow> rgba" where
  "white b cov = with_alpha (fillStyle b ''#ffffff'') (mul255 (alpha (fillStyle b ''#ffffff'')) cov)"

text \<open>
  One round of the drawing loop.  \<^verbatim>\<open>continue\<close> leaves the stencil as it is after three
  reads of the tape; a dot reads seven numbers, a dash nine.  An index outside
  \<^verbatim>\<open>contourRegions\<close> yields \<^verbatim>\<open>undefined\<close>, and reading its \<^verbatim>\<open>.x\<close>, once the two
  offsets are drawn, is a TypeError; \<^verbatim>\<open>arc\<close> with a negative radius is an
  IndexSizeError.
\<close>

definition stippleStep ::
  "browser \<Rightarrow> RequiredOptions \<Rightarrow> nat \<Rightarrow> nat \<Rightarrow> nat \<Rightarrow> (nat \<times> nat) list \<Rightarrow> sctx \<Rightarrow> rng
     \<Rightarrow> (error + sctx) \<times> rng" where
  "stippleStep b opts w h rate regions st rng0 =
     (let (r1, rng1) = Math_random rng0;
          i = \<lfloor>r1 * real (length regions)\<rfloor>;
          (r2, rng2) = Math_random rng1;
          offsetX = (r2 - 1 / 2) * real rate * 2;
          (r3, rng3) = Math_random rng2;
          offsetY = (r3 - 1 / 2) * real rate * 2
      in if i < 0 \<or> int (length regions) \<le> i then (Inl TypeError, rng3)
         else
           (let basePoint = regions ! nat i;
                x = real (fst basePoint) + offsetX;
                y = real (snd basePoint) + offsetY
            in if x < 0 \<or> real w \<le> x \<or> y < 0 \<or> real h \<le> y then (Inr st, rng3)
               else
                 (let (r4, rng4) = Math_random rng3;
                      jx = (r4 - 1 / 2) * opts_jitterAmount opts * 2;
                      (r5, rng5) = Math_random rng4;
                      jy = (r5 - 1 / 2) * opts_jitterAmount opts * 2;
                      (r6, rng6) = Math_random rng5
                  in if r6 < dotRatio
                     then
                       (let (d, rng7) = random (fst (opts_dotSizeRange opts))
                                          (snd (opts_dotSizeRange opts)) rng6;
                            r = d / 2
                        in if r < 0 then (Inl IndexSizeError, rng7)
                           else
                             (Inr (st\<lparr>stencil :=
                                       paint SourceOver
                                         (\<lambda>px py. white b (fillArc b (x + jx) (y + jy) r px py))
                                         (stencil st)\<rparr>),
                              rng7))
                     else
                       (let (len, rng7) = random (fst (opts_lineLengthRange opts))
                                            (snd (opts_lineLengthRange opts)) rng6;
                            (r8, rng8) = Math_random rng7;
                            angle = r8 * pi * 2;
                            dx = cos angle * len * (1 / 2);
                            dy = sin angle * len * (1 / 2);
                            (lw, rng9) = random (opts_strokePx opts * (6 / 10))
                                           (opts_strokePx opts * (12 / 10)) rng8;
                            lw' = (if 0 < lw then lw else lineWidth st)
                        in (Inr (st\<lparr>lineWidth := lw',
                                     stencil :=
                                       paint SourceOver
                                         (\<lambda>px py. white b
                                            (strokeLine b lw' (x - dx + jx, y - dy + jy)
                                               (x + dx + jx, y + dy + jy) px py))
                                         (stencil st)\<rparr>),
                            rng9)))))"

text \<open>\<^verbatim>\<open>for (let i = 0; i < density; i++)\<close>: \<open>n\<close> rounds are left; a throw ends the loop.\<close>

fun stipple ::
  "browser \<Rightarrow> RequiredOptions \<Rightarrow> nat \<Rightarrow> nat \<Rightarrow> nat \<Rightarrow> (nat \<times> nat) list \<Rightarrow> nat \<Rightarrow> sctx \<Rightarrow> rng
     \<Rightarrow> (error + sctx) \<times> rng" where
  "stipple b opts w h rate regions 0 st rng = (Inr st, rng)"
| "stipple b opts w h rate regions (Suc n) st rng =
     (case stippleStep b opts w h rate regions st rng of
        (Inl e, rng') \<Rightarrow> (Inl e, rng')
      | (Inr st', rng') \<Rightarrow> stipple b opts w h rate regions n st' rng')"

text \<open>
  \<^verbatim>\<open>applyHandDrawnEffect\<close> mutates \<^verbatim>\<open>borderCanvas\<close> in place; the model returns the
  canvas as the call leaves it, or the error it throws.
\<close>

definition applyHandDrawnEffect ::
  "browser \<Rightarrow> canvas \<Rightarrow> ContourBorderOptions \<Rightarrow> rng \<Rightarrow> (error + canvas) \<times> rng" where
  "applyHandDrawnEffect b borderCanvas options rng =
     (let opts = spread DEFAULT_OPTIONS options;
          w = width borderCanvas;
          h = height borderCanvas
      in if \<not> getContext b w h then (Inl NoCanvasContext, rng)
         else if \<not> getContext b w h then (Inl NoStencilContext, rng)
         else
           (case getImageData borderCanvas 0 0 w h of
              Inl e \<Rightarrow> (Inl e, rng)
            | Inr borderData \<Rightarrow>
                (let rate = sampleRate w h;
                     regions = contourRegions borderData w h rate
                 in if length regions = 0 then (Inr borderCanvas, rng)
                    else
                      (case stipple b opts w h rate regions (density regions)
                              \<lparr>stencil = createCanvas w h, lineWidth = 1\<rparr> rng of
                         (Inl e, rng') \<Rightarrow> (Inl e, rng')
                       | (Inr st, rng') \<Rightarrow>
                           (Inr (drawImage3 DestinationIn (stencil st) 0 0 borderCanvas), rng')))))"

subsection \<open>applyContourBorder\<close>

text \<open>
  \<^verbatim>\<open>canvas.toDataURL('image/png')\<close>: the string \<^verbatim>\<open>data:,\<close> when the bitmap has no pixels or
  cannot be serialised, otherwise the PNG encoding of the bitmap, which stands for itself
  here.
\<close>

datatype dataURL = NoData | Png canvas

definition toDataURL :: "browser \<Rightarrow> canvas \<Rightarrow> dataURL" where
  "toDataURL b c =
     (if width c = 0 \<or> height c = 0 then NoData
      else if serializes b (width c) (height c) then Png c
      else NoData)"

text \<open>The promise of \<^verbatim>\<open>applyContourBorder\<close>: a rejection or the data URL it resolves with.\<close>

definition applyContourBorder ::
  "browser \<Rightarrow> string \<Rightarrow> ContourBorderOptions \<Rightarrow> rng \<Rightarrow> (error + dataURL) \<times> rng" where
  "applyContourBorder b imageUrl options rng =
     (case loadImage b imageUrl of
        None \<Rightarrow> (Inl ImageLoadFailed, rng)
      | Some img \<Rightarrow>
          (let imageWidth = width img;
               imageHeight = height img;
               canvasWidth = imageWidth * 2;
               canvasHeight = imageHeight * 2
           in case createBorderMask b imageUrl options rng of
                (Inl e, rng1) \<Rightarrow> (Inl e, rng1)
              | (Inr borderCanvas, rng1) \<Rightarrow>
                  (case applyHandDrawnEffect b borderCanvas options rng1 of
                     (Inl e, rng2) \<Rightarrow> (Inl e, rng2)
                   | (Inr stippled, rng2) \<Rightarrow>
                       if \<not> getContext b canvasWidth canvasHeight then (Inl NoFinalContext, rng2)
                       else
                         (Inr (toDataURL b
                                 (drawImage3 SourceOver stippled 0 0
                                    (drawImage5 b SourceOver img (imageX img) (imageY img)
                                       (real imageWidth) (real imageHeight)
                                       (createCanvas canvasWidth canvasHeight)))),
                          rng2))))"

subsection \<open>A reference browser\<close>

text \<open>
  A concrete browser on which the functions above can be run: it resamples by
  nearest neighbour at pixel centres, rasterises without anti-aliasing, reads colours
  written \<^verbatim>\<open>#rrggbb\<close>, never runs out of canvas contexts, and serialises bitmaps of up
  to 65535 pixels a side and 268435456 pixels in all.  It draws nothing for a rectangle
  whose width or height is not positive.
\<close>

definition nearest :: "canvas \<Rightarrow> rect \<Rightarrow> rect \<Rightarrow> nat \<Rightarrow> nat \<Rightarrow> rgba" where
  "nearest src sr dr x y =
     (case sr of (sx, sy, sw, sh) \<Rightarrow>
      case dr of (dx, dy, dw, dh) \<Rightarrow>
        if sw \<le> 0 \<or> sh \<le> 0 \<or> dw \<le> 0 \<or> dh \<le> 0 then transparent
        else
          (let cx = real x + 1 / 2;
               cy = real y + 1 / 2
           in if cx < dx \<or> dx + dw \<le> cx \<or> cy < dy \<or> dy + dh \<le> cy then transparent
              else
                (let u = \<lfloor>sx + (cx - dx) * sw / dw\<rfloor>;
                     v = \<lfloor>sy + (cy - dy) * sh / dh\<rfloor>
                 in if u < 0 \<or> int (width src) \<le> u \<or> v < 0 \<or> int (height src) \<le> v
                    then transparent
                    else px src (nat u) (nat v))))"

definition hexDigit :: "char \<Rightarrow> nat option" where
  "hexDigit c =
     (let n = (of_char c :: nat)
      in if 48 \<le> n \<and> n \<le> 57 then Some (n - 48)
         else if 97 \<le> n \<and> n \<le> 102 then Some (n - 87)
         else if 65 \<le> n \<and> n \<le> 70 then Some (n - 55)
         else None)"

definition hexColor :: "string \<Rightarrow> rgba option" where
  "hexColor s =
     (case s of
        [] \<Rightarrow> None
      | c # ds \<Rightarrow>
          if c = CHR ''#''
          then (case those (map hexDigit ds) of
                  Some [r1, r2, g1, g2, b1, b2] \<Rightarrow>
                    Some \<lparr>red = 16 * r1 + r2, green = 16 * g1 + g2, blue = 16 * b1 + b2,
                          alpha = 255\<rparr>
                | _ \<Rightarrow> None)
          else None)"

definition disc :: "real \<Rightarrow> real \<Rightarrow> real \<Rightarrow> nat \<Rightarrow> nat \<Rightarrow> nat" where
  "disc cx cy r x y =
     (if (real x + 1 / 2 - cx)\<^sup>2 + (real y + 1 / 2 - cy)\<^sup>2 \<le> r\<^sup>2 then 255 else 0)"

definition capsule :: "real \<Rightarrow> real \<times> real \<Rightarrow> real \<times> real \<Rightarrow> nat \<Rightarrow> nat \<Rightarrow> nat" where
  "capsule lw p q x y =
     (let vx = fst q - fst p;
          vy = snd q - snd p;
          wx = real x + 1 / 2 - fst p;
          wy = real y + 1 / 2 - snd p;
          l2 = vx\<^sup>2 + vy\<^sup>2;
          t = (if l2 = 0 then 0 else max 0 (min 1 ((wx * vx + wy * vy) / l2)))
      in if (wx - t * vx)\<^sup>2 + (wy - t * vy)\<^sup>2 \<le> (lw / 2)\<^sup>2 then 255 else 0)"

definition refBrowser :: "canvas \<Rightarrow> browser" where
  "refBrowser img =
     \<lparr>loadImage = (\<lambda>url. if url = ''cutout.png'' then Some img else None),
      getContext = (\<lambda>w h. True),
      resample = nearest,
      parseColor = hexColor,
      fillArc = disc,
      strokeLine = capsule,
      serializes = (\<lambda>w h. w \<le> 65535 \<and> h \<le> 65535 \<and> w * h \<le> 268435456)\<rparr>"

text \<open>Test images: a square of side \<open>n\<close> whose every pixel has alpha \<open>a\<close>.\<close>

definition square :: "nat \<Rightarrow> nat \<Rightarrow> canvas" where
  "square n a =
     \<lparr>width = n, height = n,
      px = (\<lambda>x y. if x < n \<and> y < n then with_alpha \<lparr>red = 200, green = 120, blue = 40, alpha = a\<rparr> a
                   else transparent)\<rparr>"


definition noOptions :: ContourBorderOptions where
  "noOptions =
     \<lparr>color = None, borderScale = None, gapPx = None, strokePx = None,
      lineLengthRange = None, dotSizeRange = None, spacing = None, jitterAmount = None\<rparr>"

text \<open>
  A tape of period seven, the length of a round that draws a dot: it picks the middle
  candidate, adds no offset and no jitter, chooses a dot and the middle of its size range.
\<close>

definition dotTape :: rng where
  "dotTape n = (if n mod 7 = 5 then 0 else 1 / 2)"

subsection \<open>A worked example\<close>

text \<open>
  An opaque square image of side 8 on the reference browser, with a gap and a stroke of
  two pixels: the inner silhouette is the square \<open>[2, 14)\<^sup>2\<close>, the outer one the whole
  canvas \<open>[0, 16)\<^sup>2\<close>.
\<close>

definition demoImage :: canvas where
  "demoImage = square 8 255"

definition demoBrowser :: browser where
  "demoBrowser = refBrowser demoImage"

definition demoOptions :: ContourBorderOptions where
  "demoOptions = noOptions\<lparr>gapPx := Some 2, strokePx := Some 2\<rparr>"

definition demoRing :: canvas where
  "demoRing = ringCanvas demoBrowser demoImage (spread DEFAULT_OPTIONS demoOptions)"

text \<open>The candidate points of the example's ring, at the sampling stride 4.\<close>

definition demoRegions :: "(nat \<times> nat) list" where
  "demoRegions = [(0, 0), (4, 0), (8, 0), (12, 0), (0, 4), (0, 8), (0, 12)]"

text \<open>A stencil of the example on which the dot at \<open>(12, 0)\<close> has been drawn.\<close>

definition dotted :: "sctx \<Rightarrow> bool" where
  "dotted st =
     (width (stencil st) = 16 \<and> height (stencil st) = 16 \<and> alpha (px (stencil st) 12 0) = 255)"

subsection \<open>Notions used to state the properties\<close>





subsection \<open>Further examples\<close>



text \<open>A cut-out that is half transparent everywhere, as a soft edge is.\<close>

definition softImage :: canvas where
  "softImage = square 8 128"

definition softBrowser :: browser where
  "softBrowser = refBrowser softImage"

text \<open>An image smaller than twice the default gap plus stroke.\<close>

definition smallImage :: canvas where
  "smallImage = square 20 255"

definition smallBrowser :: browser where
  "smallBrowser = refBrowser smallImage"

text \<open>A fully transparent image.\<close>

definition clearImage :: canvas where
  "clearImage = square 40 0"

definition clearBrowser :: browser where
  "clearBrowser = refBrowser clearImage"

text \<open>An image large enough for the default gap and stroke.\<close>

definition largeImage :: canvas where
  "largeImage = square 40 255"

definition largeBrowser :: browser where
  "largeBrowser = refBrowser largeImage"

text \<open>
  The candidate points of the ring of \<open>largeImage\<close> under the default options, at the
  sampling stride 4: the grid points of the band between the boxes \<open>[5, 75)\<^sup>2\<close> and
  \<open>[10, 70)\<^sup>2\<close>.
\<close>

definition largeRegions :: "(nat \<times> nat) list" where
  "largeRegions =
     map (\<lambda>x. (x, 8)) (map (\<lambda>i. 8 + 4 * i) [0..<17])
     @ concat (map (\<lambda>y. [(8, y), (72, y)]) (map (\<lambda>i. 12 + 4 * i) [0..<15]))
     @ map (\<lambda>x. (x, 72)) (map (\<lambda>i. 8 + 4 * i) [0..<17])"

text \<open>A stencil of that example on which the dot at \<open>(72, 40)\<close> has been drawn.\<close>

definition dottedLarge :: "sctx \<Rightarrow> bool" where
  "dottedLarge st =
     (width (stencil st) = 80 \<and> height (stencil st) = 80 \<and> alpha (px (stencil st) 72 40) = 255)"

text \<open>A tape on which every round is skipped: the offset leaves the canvas.\<close>

definition zeroTape :: rng where
  "zeroTape n = 0"

text \<open>The defaults as the interface documents them, written out in a config.\<close>

definition documentedDefaults :: ContourBorderOptions where
  "documentedDefaults =
     \<lparr>color = Some ''#ffffff'', borderScale = None, gapPx = Some 10, strokePx = Some 5,
      lineLengthRange = Some (20, 40), dotSizeRange = Some (3, 5), spacing = Some 12,
      jitterAmount = Some (15 / 10)\<rparr>"


section \<open>Auxiliary facts\<close>

subsection \<open>Compositing and canvas sizes\<close>

lemma alpha_transparent [simp]: "alpha transparent = 0"
  by (simp add: transparent_def)

lemma alpha_with_alpha [simp]: "alpha (with_alpha c a) = a"
  by (simp add: with_alpha_def)

lemma mul255_0_left [simp]: "mul255 0 b = 0"
  by (simp add: mul255_def)

lemma mul255_0_right [simp]: "mul255 a 0 = 0"
  by (simp add: mul255_def)

lemma mul255_full [simp]: "mul255 255 255 = 255"
  by (simp add: mul255_def)

lemma mul255_pos: "0 < mul255 a b \<Longrightarrow> 0 < a \<and> 0 < b"
  by (cases "a = 0"; cases "b = 0") simp_all

lemma alpha_blend:
  "alpha (blend SourceOver s d) = alpha s + mul255 (alpha d) (255 - alpha s)"
  "alpha (blend DestinationOut s d) = mul255 (alpha d) (255 - alpha s)"
  "alpha (blend SourceIn s d) = mul255 (alpha s) (alpha d)"
  "alpha (blend DestinationIn s d) = mul255 (alpha d) (alpha s)"
  by (simp_all add: Let_def)

declare blend.simps [simp del]

lemma width_paint [simp]: "width (paint op layer dst) = width dst"
  by (simp add: paint_def)

lemma height_paint [simp]: "height (paint op layer dst) = height dst"
  by (simp add: paint_def)

lemma alpha_px_paint:
  "alpha (px (paint op layer dst) x y) =
     (if x < width dst \<and> y < height dst then alpha (blend op (layer x y) (px dst x y)) else 0)"
  by (simp add: paint_def)

lemma createCanvas_simps [simp]:
  "width (createCanvas w h) = w"
  "height (createCanvas w h) = h"
  "px (createCanvas w h) x y = transparent"
  by (simp_all add: createCanvas_def)

lemma size_drawImage3 [simp]:
  "width (drawImage3 op src dx dy dst) = width dst"
  "height (drawImage3 op src dx dy dst) = height dst"
  by (simp_all add: drawImage3_def)

lemma size_drawImage5 [simp]:
  "width (drawImage5 b op img dx dy dw dh dst) = width dst"
  "height (drawImage5 b op img dx dy dw dh dst) = height dst"
  by (simp_all add: drawImage5_def drawImage9_def)

lemma alpha_drawImage3_origin:
  "alpha (px (drawImage3 op src 0 0 dst) x y) =
     (if x < width dst \<and> y < height dst
      then alpha (blend op (if x < width src \<and> y < height src then px src x y else transparent)
                    (px dst x y))
      else 0)"
  by (simp add: drawImage3_def alpha_px_paint)

lemma size_maskCanvas [simp]:
  "width (maskCanvas b img) = width img * 2"
  "height (maskCanvas b img) = height img * 2"
  by (simp_all add: maskCanvas_def)

lemma size_innerCanvas [simp]:
  "width (innerCanvas b img gap) = width img * 2"
  "height (innerCanvas b img gap) = height img * 2"
  by (simp_all add: innerCanvas_def drawImage9_def)

lemma size_outerCanvas [simp]:
  "width (outerCanvas b img gap stroke) = width img * 2"
  "height (outerCanvas b img gap stroke) = height img * 2"
  by (simp_all add: outerCanvas_def drawImage9_def)

lemma size_ringCanvas [simp]:
  "width (ringCanvas b img opts) = width img * 2"
  "height (ringCanvas b img opts) = height img * 2"
  by (simp_all add: ringCanvas_def fillRect_def Let_def)

text \<open>On a fresh canvas a draw leaves the alpha of its source layer.\<close>

lemma alpha_maskCanvas:
  "alpha (px (maskCanvas b img) x y) =
     (if x < width img * 2 \<and> y < height img * 2
      then alpha (resample b img (0, 0, real (width img), real (height img)) (imageRect img) x y)
      else 0)"
  by (simp add: maskCanvas_def drawImage5_def drawImage9_def alpha_px_paint alpha_blend
      imageRect_def)

lemma alpha_innerCanvas:
  "alpha (px (innerCanvas b img gap) x y) =
     (if x < width img * 2 \<and> y < height img * 2
      then alpha (resample b (maskCanvas b img) (imageRect img) (innerRect img gap) x y)
      else 0)"
  by (simp add: innerCanvas_def drawImage9_def alpha_px_paint alpha_blend)

lemma alpha_outerCanvas:
  "alpha (px (outerCanvas b img gap stroke) x y) =
     (if x < width img * 2 \<and> y < height img * 2
      then alpha (resample b (innerCanvas b img gap) (innerRect img gap)
                    (outerRect img gap stroke) x y)
      else 0)"
  by (simp add: outerCanvas_def drawImage9_def alpha_px_paint alpha_blend)

text \<open>The alpha of the ring: what destination-out leaves of the outer silhouette.\<close>

lemma alpha_ringCanvas:
  "alpha (px (ringCanvas b img opts) x y) =
     (if x < width img * 2 \<and> y < height img * 2
      then mul255 (alpha (fillStyle b (opts_color opts)))
             (mul255 (alpha (px (outerCanvas b img (opts_gapPx opts) (opts_strokePx opts)) x y))
                (255 - alpha (px (innerCanvas b img (opts_gapPx opts)) x y)))
      else 0)"
  by (simp add: ringCanvas_def fillRect_def alpha_drawImage3_origin alpha_px_paint alpha_blend
      Let_def)

text \<open>
  The outer silhouette's box lies within the canvas exactly when twice the gap plus the
  stroke is at most the image's width (and likewise for the height).
\<close>

lemma outer_box_inside_canvas_iff:
  "(case outerRect img gap stroke of
      (x, y, w, h) \<Rightarrow> 0 \<le> x \<and> x + w \<le> real (width img * 2))
   \<longleftrightarrow> 2 * (gap + stroke) \<le> real (width img)"
  by (auto simp: outerRect_def innerRect_def imageX_def)

subsection \<open>What the functions return\<close>

lemma createBorderMask_Inr:
  "fst (createBorderMask b url options rng) = Inr ring \<Longrightarrow>
   \<exists>img. loadImage b url = Some img \<and> ring = ringCanvas b img (spread DEFAULT_OPTIONS options)"
  by (auto simp: createBorderMask_def Let_def split: option.splits if_splits sum.splits)

lemma createBorderMask_tape: "snd (createBorderMask b url options rng) = rng"
  by (auto simp: createBorderMask_def Let_def split: option.splits if_splits sum.splits)

lemma createBorderMask_fst:
  "fst (createBorderMask b url options rng) = fst (createBorderMask b url options rng')"
  by (auto simp: createBorderMask_def Let_def split: option.splits if_splits sum.splits)

lemma createBorderMask_returns:
  assumes "loadImage b url = Some img"
    and "0 < width img" "0 < height img"
    and "getContext b (width img * 2) (height img * 2)"
  shows "createBorderMask b url options rng
     = (Inr (ringCanvas b img (spread DEFAULT_OPTIONS options)), rng)"
  using assms by (simp add: createBorderMask_def Let_def getImageData_def)

lemma applyHandDrawnEffect_Inr:
  "fst (applyHandDrawnEffect b c options rng) = Inr c' \<Longrightarrow>
   c' = c \<or> (\<exists>s. c' = drawImage3 DestinationIn s 0 0 c)"
  by (auto simp: applyHandDrawnEffect_def Let_def
      split: option.splits if_splits sum.splits prod.splits)

lemma getImageData_whole:
  "0 < width c \<Longrightarrow> 0 < height c \<Longrightarrow>
   \<exists>d. getImageData c 0 0 (width c) (height c) = Inr d \<and>
       (\<forall>x y. x < width c \<longrightarrow> y < height c \<longrightarrow> px d x y = px c x y)"
  by (simp add: getImageData_def)

subsection \<open>The options that are read\<close>

text \<open>
  The stipple pass reads four of the merged options, the ring three; \<^verbatim>\<open>borderScale\<close> and
  \<^verbatim>\<open>spacing\<close> are read nowhere.
\<close>

lemma stippleStep_reads:
  assumes "opts_jitterAmount o1 = opts_jitterAmount o2"
    and "opts_dotSizeRange o1 = opts_dotSizeRange o2"
    and "opts_lineLengthRange o1 = opts_lineLengthRange o2"
    and "opts_strokePx o1 = opts_strokePx o2"
  shows "stippleStep b o1 w h rate regions st rng = stippleStep b o2 w h rate regions st rng"
  unfolding stippleStep_def assms by (rule refl)

lemma stipple_reads:
  assumes "opts_jitterAmount o1 = opts_jitterAmount o2"
    and "opts_dotSizeRange o1 = opts_dotSizeRange o2"
    and "opts_lineLengthRange o1 = opts_lineLengthRange o2"
    and "opts_strokePx o1 = opts_strokePx o2"
  shows "stipple b o1 w h rate regions n st rng = stipple b o2 w h rate regions n st rng"
proof (induction n arbitrary: st rng)
  case 0
  show ?case
    by simp
next
  case (Suc n)
  show ?case
    by (simp add: stippleStep_reads [OF assms] Suc.IH split: prod.splits sum.splits)
qed

lemma applyHandDrawnEffect_reads:
  assumes "opts_jitterAmount (spread DEFAULT_OPTIONS o1) = opts_jitterAmount (spread DEFAULT_OPTIONS o2)"
    and "opts_dotSizeRange (spread DEFAULT_OPTIONS o1) = opts_dotSizeRange (spread DEFAULT_OPTIONS o2)"
    and "opts_lineLengthRange (spread DEFAULT_OPTIONS o1)
         = opts_lineLengthRange (spread DEFAULT_OPTIONS o2)"
    and "opts_strokePx (spread DEFAULT_OPTIONS o1) = opts_strokePx (spread DEFAULT_OPTIONS o2)"
  shows "applyHandDrawnEffect b c o1 rng = applyHandDrawnEffect b c o2 rng"
  unfolding applyHandDrawnEffect_def Let_def stipple_reads [OF assms] by (rule refl)

lemma ringCanvas_reads:
  assumes "opts_gapPx o1 = opts_gapPx o2"
    and "opts_strokePx o1 = opts_strokePx o2"
    and "opts_color o1 = opts_color o2"
  shows "ringCanvas b img o1 = ringCanvas b img o2"
  unfolding ringCanvas_def assms by (rule refl)

lemma createBorderMask_reads:
  assumes "opts_gapPx (spread DEFAULT_OPTIONS o1) = opts_gapPx (spread DEFAULT_OPTIONS o2)"
    and "opts_strokePx (spread DEFAULT_OPTIONS o1) = opts_strokePx (spread DEFAULT_OPTIONS o2)"
    and "opts_color (spread DEFAULT_OPTIONS o1) = opts_color (spread DEFAULT_OPTIONS o2)"
  shows "createBorderMask b url o1 rng = createBorderMask b url o2 rng"
  unfolding createBorderMask_def Let_def ringCanvas_reads [OF assms] by (rule refl)

lemma applyContourBorder_reads:
  assumes "createBorderMask b url o1 rng = createBorderMask b url o2 rng"
    and "\<And>c rng'. applyHandDrawnEffect b c o1 rng' = applyHandDrawnEffect b c o2 rng'"
  shows "applyContourBorder b url o1 rng = applyContourBorder b url o2 rng"
  unfolding applyContourBorder_def assms by (rule refl)

lemma spacing_createBorderMask:
  "createBorderMask b url (options\<lparr>spacing := s\<rparr>) rng
     = createBorderMask b url (options\<lparr>spacing := s'\<rparr>) rng"
  by (rule createBorderMask_reads) (simp_all add: spread_def)

lemma spacing_applyHandDrawnEffect:
  "applyHandDrawnEffect b c (options\<lparr>spacing := s\<rparr>) rng
     = applyHandDrawnEffect b c (options\<lparr>spacing := s'\<rparr>) rng"
  by (rule applyHandDrawnEffect_reads) (simp_all add: spread_def)

lemma spacing_applyContourBorder:
  "applyContourBorder b url (options\<lparr>spacing := s\<rparr>) rng
     = applyContourBorder b url (options\<lparr>spacing := s'\<rparr>) rng"
  by (rule applyContourBorder_reads) (rule spacing_createBorderMask spacing_applyHandDrawnEffect)+

lemma spread_documentedDefaults: "spread DEFAULT_OPTIONS documentedDefaults = DEFAULT_OPTIONS"
  by (simp add: spread_def documentedDefaults_def DEFAULT_OPTIONS_def)

lemma spread_noOptions: "spread DEFAULT_OPTIONS noOptions = DEFAULT_OPTIONS"
  by (simp add: spread_def noOptions_def)

lemma DEFAULT_OPTIONS_simps [simp]:
  "opts_gapPx DEFAULT_OPTIONS = 10" "opts_strokePx DEFAULT_OPTIONS = 5"
  "opts_color DEFAULT_OPTIONS = ''#ffffff''"
  "opts_dotSizeRange DEFAULT_OPTIONS = (3, 5)"
  by (simp_all add: DEFAULT_OPTIONS_def)

subsection \<open>Runs that return\<close>

text \<open>
  On a tape of numbers in \<open>[0, 1)\<close> the index into the candidate points is in range,
  and a radius drawn between two non-negative ends is non-negative: the drawing loop
  throws nothing.
\<close>

lemma unit_tape_tail: "unit_tape rng \<Longrightarrow> unit_tape (\<lambda>n. rng (Suc n))"
  by (simp add: unit_tape_def)

lemma unit_tape_head: "unit_tape rng \<Longrightarrow> 0 \<le> rng 0 \<and> rng 0 < 1"
  by (simp add: unit_tape_def)

lemma index_in_range:
  assumes "0 \<le> r" "r < 1" "xs \<noteq> []"
  shows "\<not> (\<lfloor>r * real (length xs)\<rfloor> < 0 \<or> int (length xs) \<le> \<lfloor>r * real (length xs)\<rfloor>)"
proof -
  have n: "0 < real (length xs)"
    using assms(3) by simp
  have "0 \<le> r * real (length xs)"
    using assms(1) by simp
  moreover have "r * real (length xs) < real (length xs)"
    using assms(2) n by simp
  ultimately have "0 \<le> \<lfloor>r * real (length xs)\<rfloor>" "\<lfloor>r * real (length xs)\<rfloor> < int (length xs)"
    by (simp_all add: floor_less_iff)
  then show ?thesis
    by linarith
qed

lemma radius_nonneg:
  fixes r :: real
  assumes "0 \<le> r" "r < 1" "0 \<le> mn" "0 \<le> mx"
  shows "\<not> (r * (mx - mn) + mn) / 2 < 0"
proof -
  have "r * (mx - mn) + mn = (1 - r) * mn + r * mx"
    by (simp add: algebra_simps)
  moreover have "0 \<le> (1 - r) * mn" "0 \<le> r * mx"
    using assms by simp_all
  ultimately show ?thesis
    by simp
qed

lemma stippleStep_returns:
  assumes tape: "unit_tape rng"
    and regions: "regions \<noteq> []"
    and dots: "0 \<le> fst (opts_dotSizeRange opts)" "0 \<le> snd (opts_dotSizeRange opts)"
  shows "\<exists>st' rng'. stippleStep b opts w h rate regions st rng = (Inr st', rng') \<and> unit_tape rng'"
proof -
  have t: "0 \<le> rng n" "rng n < 1" for n
    using tape by (simp_all add: unit_tape_def)
  have i: "\<not> (\<lfloor>rng 0 * real (length regions)\<rfloor> < 0
              \<or> int (length regions) \<le> \<lfloor>rng 0 * real (length regions)\<rfloor>)"
    by (rule index_in_range) (use t regions in simp_all)
  have r: "\<not> (rng 6 * (snd (opts_dotSizeRange opts) - fst (opts_dotSizeRange opts))
               + fst (opts_dotSizeRange opts)) / 2 < 0"
    by (rule radius_nonneg) (use t dots in simp_all)
  show ?thesis
    unfolding stippleStep_def Math_random_def random_def Let_def split_def fst_conv snd_conv
    using i r t by (auto simp: unit_tape_def numeral_eq_Suc)
qed

lemma stipple_returns:
  assumes regions: "regions \<noteq> []"
    and dots: "0 \<le> fst (opts_dotSizeRange opts)" "0 \<le> snd (opts_dotSizeRange opts)"
  shows "unit_tape rng \<Longrightarrow>
    \<exists>st' rng'. stipple b opts w h rate regions n st rng = (Inr st', rng') \<and> unit_tape rng'"
proof (induction n arbitrary: st rng)
  case 0
  then show ?case
    by simp
next
  case (Suc n)
  obtain st1 rng1
    where step: "stippleStep b opts w h rate regions st rng = (Inr st1, rng1)"
      and tape: "unit_tape rng1"
    using stippleStep_returns [OF Suc.prems regions dots] by blast
  from Suc.IH [OF tape, of st1] show ?case
    by (simp add: step)
qed

lemma applyHandDrawnEffect_returns:
  assumes "getContext b (width c) (height c)"
    and "0 < width c" "0 < height c"
    and "unit_tape rng"
    and "0 \<le> fst (opts_dotSizeRange (spread DEFAULT_OPTIONS options))"
    and "0 \<le> snd (opts_dotSizeRange (spread DEFAULT_OPTIONS options))"
  shows "\<exists>c' rng'. applyHandDrawnEffect b c options rng = (Inr c', rng')
           \<and> width c' = width c \<and> height c' = height c"
proof -
  obtain d where d: "getImageData c 0 0 (width c) (height c) = Inr d"
    using getImageData_whole [OF assms(2,3)] by blast
  define regions where "regions = contourRegions d (width c) (height c) (sampleRate (width c) (height c))"
  show ?thesis
  proof (cases "regions = []")
    case True
    then show ?thesis
      using assms(1) d by (simp add: applyHandDrawnEffect_def regions_def)
  next
    case False
    obtain st' rng' where
      "stipple b (spread DEFAULT_OPTIONS options) (width c) (height c)
         (sampleRate (width c) (height c)) regions (density regions)
         \<lparr>stencil = createCanvas (width c) (height c), lineWidth = 1\<rparr> rng = (Inr st', rng')"
      using stipple_returns [OF False assms(5,6,4)] by blast
    then show ?thesis
      using assms(1) d False by (simp add: applyHandDrawnEffect_def regions_def [symmetric])
  qed
qed

lemma applyContourBorder_returns:
  assumes load: "loadImage b url = Some img"
    and size: "0 < width img" "0 < height img"
    and ctx: "getContext b (width img * 2) (height img * 2)"
    and ser: "serializes b (width img * 2) (height img * 2)"
    and tape: "unit_tape rng"
    and dots: "0 \<le> fst (opts_dotSizeRange (spread DEFAULT_OPTIONS options))"
      "0 \<le> snd (opts_dotSizeRange (spread DEFAULT_OPTIONS options))"
  shows "\<exists>c. fst (applyContourBorder b url options rng) = Inr (Png c)
           \<and> width c = width img * 2 \<and> height c = height img * 2"
proof -
  let ?ring = "ringCanvas b img (spread DEFAULT_OPTIONS options)"
  have mask: "createBorderMask b url options rng = (Inr ?ring, rng)"
    by (rule createBorderMask_returns [OF load size ctx])
  obtain c' rng' where
    effect: "applyHandDrawnEffect b ?ring options rng = (Inr c', rng')"
    using applyHandDrawnEffect_returns [of b ?ring rng options] size ctx tape dots
    by auto
  show ?thesis
    using ctx ser size
    by (simp add: applyContourBorder_def Let_def load mask effect toDataURL_def)
qed

lemma unit_dotTape: "unit_tape dotTape"
  by (simp add: unit_tape_def dotTape_def)

subsection \<open>Outcomes\<close>




subsection \<open>The reference browser\<close>

lemma alpha_square: "alpha (px (square n a) x y) = (if x < n \<and> y < n then a else 0)"
  by (simp add: square_def)

lemma size_square [simp]: "width (square n a) = n" "height (square n a) = n"
  by (simp_all add: square_def)

lemma refBrowser_simps [simp]:
  "resample (refBrowser img) = nearest"
  "getContext (refBrowser img) w h"
  "loadImage (refBrowser img) ''cutout.png'' = Some img"
  "fillArc (refBrowser img) = disc"
  "serializes (refBrowser img) w h = (w \<le> 65535 \<and> h \<le> 65535 \<and> w * h \<le> 268435456)"
  by (simp_all add: refBrowser_def)

lemma hexColor_white:
  "hexColor ''#ffffff'' = Some \<lparr>red = 255, green = 255, blue = 255, alpha = 255\<rparr>"
  by (simp add: hexColor_def hexDigit_def)

lemma fillStyle_ref_white [simp]:
  "fillStyle (refBrowser img) ''#ffffff'' = \<lparr>red = 255, green = 255, blue = 255, alpha = 255\<rparr>"
  by (simp add: fillStyle_def refBrowser_def hexColor_white)

lemma alpha_nearest:
  "alpha (nearest src (sx, sy, sw, sh) (dx, dy, dw, dh) x y) =
     (if sw \<le> 0 \<or> sh \<le> 0 \<or> dw \<le> 0 \<or> dh \<le> 0 then 0
      else if real x + 1 / 2 < dx \<or> dx + dw \<le> real x + 1 / 2
              \<or> real y + 1 / 2 < dy \<or> dy + dh \<le> real y + 1 / 2 then 0
      else if \<lfloor>sx + (real x + 1 / 2 - dx) * sw / dw\<rfloor> < 0
              \<or> int (width src) \<le> \<lfloor>sx + (real x + 1 / 2 - dx) * sw / dw\<rfloor>
              \<or> \<lfloor>sy + (real y + 1 / 2 - dy) * sh / dh\<rfloor> < 0
              \<or> int (height src) \<le> \<lfloor>sy + (real y + 1 / 2 - dy) * sh / dh\<rfloor> then 0
      else alpha (px src (nat \<lfloor>sx + (real x + 1 / 2 - dx) * sw / dw\<rfloor>)
                         (nat \<lfloor>sy + (real y + 1 / 2 - dy) * sh / dh\<rfloor>)))"
  by (simp add: nearest_def Let_def)

lemma nat_floor_in:
  fixes e :: real
  assumes "real lo \<le> e" "e < real hi"
  shows "lo \<le> nat \<lfloor>e\<rfloor>" "nat \<lfloor>e\<rfloor> < hi" "0 \<le> \<lfloor>e\<rfloor>" "\<lfloor>e\<rfloor> < int hi"
proof -
  have "int lo \<le> \<lfloor>e\<rfloor>"
    using assms(1) by (simp add: le_floor_iff)
  moreover have "\<lfloor>e\<rfloor> < int hi"
    using assms(2) by (simp add: floor_less_iff)
  ultimately show "lo \<le> nat \<lfloor>e\<rfloor>" "nat \<lfloor>e\<rfloor> < hi" "0 \<le> \<lfloor>e\<rfloor>" "\<lfloor>e\<rfloor> < int hi"
    by linarith+
qed

text \<open>A draw whose sample falls in a box of the source where alpha is \<open>a\<close>.\<close>

lemma nearest_uniform:
  assumes pos: "0 < sw" "0 < sh" "0 < dw" "0 < dh"
    and box: "\<And>u v. ux \<le> u \<Longrightarrow> u < ux' \<Longrightarrow> vy \<le> v \<Longrightarrow> v < vy' \<Longrightarrow> alpha (px src u v) = a"
    and fit: "ux' \<le> width src" "vy' \<le> height src"
    and inx: "dx \<le> real x + 1 / 2" "real x + 1 / 2 < dx + dw"
    and iny: "dy \<le> real y + 1 / 2" "real y + 1 / 2 < dy + dh"
    and backx: "real ux \<le> sx + (real x + 1 / 2 - dx) * sw / dw"
      "sx + (real x + 1 / 2 - dx) * sw / dw < real ux'"
    and backy: "real vy \<le> sy + (real y + 1 / 2 - dy) * sh / dh"
      "sy + (real y + 1 / 2 - dy) * sh / dh < real vy'"
  shows "alpha (nearest src (sx, sy, sw, sh) (dx, dy, dw, dh) x y) = a"
proof -
  define u where "u = \<lfloor>sx + (real x + 1 / 2 - dx) * sw / dw\<rfloor>"
  define v where "v = \<lfloor>sy + (real y + 1 / 2 - dy) * sh / dh\<rfloor>"
  have u: "ux \<le> nat u" "nat u < ux'" "0 \<le> u" "u < int ux'"
    unfolding u_def using nat_floor_in [OF backx] by blast+
  have v: "vy \<le> nat v" "nat v < vy'" "0 \<le> v" "v < int vy'"
    unfolding v_def using nat_floor_in [OF backy] by blast+
  have "alpha (nearest src (sx, sy, sw, sh) (dx, dy, dw, dh) x y) = alpha (px src (nat u) (nat v))"
    unfolding alpha_nearest u_def [symmetric] v_def [symmetric]
    using pos inx iny u v fit by auto
  then show ?thesis
    using box [OF u(1,2) v(1,2)] by simp
qed

lemma nearest_outside:
  assumes "real x + 1 / 2 < dx \<or> dx + dw \<le> real x + 1 / 2
           \<or> real y + 1 / 2 < dy \<or> dy + dh \<le> real y + 1 / 2"
  shows "alpha (nearest src (sx, sy, sw, sh) (dx, dy, dw, dh) x y) = 0"
  unfolding alpha_nearest using assms by auto


text \<open>A source without any alpha leaves no alpha.\<close>

lemma nearest_clear:
  assumes "\<And>u v. alpha (px src u v) = 0"
  shows "alpha (nearest src (sx, sy, sw, sh) (dx, dy, dw, dh) x y) = 0"
  by (simp add: alpha_nearest assms)

subsection \<open>The worked example\<close>

text \<open>
  A square image of side 8 and uniform alpha \<open>a\<close>, gap and stroke of two pixels: the
  three silhouettes are the squares \<open>[4, 12)\<^sup>2\<close>, \<open>[2, 14)\<^sup>2\<close> and \<open>[0, 16)\<^sup>2\<close>.
\<close>

lemma rects_square8:
  "imageRect (square 8 a) = (4, 4, 8, 8)"
  "innerRect (square 8 a) 2 = (2, 2, 12, 12)"
  "outerRect (square 8 a) 2 2 = (0, 0, 16, 16)"
  by (simp_all add: imageRect_def innerRect_def outerRect_def imageX_def imageY_def)

lemma square8_mask:
  "alpha (px (maskCanvas (refBrowser (square 8 a)) (square 8 a)) x y) =
     (if 4 \<le> x \<and> x < 12 \<and> 4 \<le> y \<and> y < 12 then a else 0)"
proof (cases "4 \<le> x \<and> x < 12 \<and> 4 \<le> y \<and> y < 12")
  case True
  have "alpha (nearest (square 8 a) (0, 0, 8, 8) (4, 4, 8, 8) x y) = a"
    by (rule nearest_uniform [where ux = 0 and ux' = 8 and vy = 0 and vy' = 8])
       (use True in \<open>simp_all add: alpha_square\<close>)
  with True show ?thesis
    by (simp add: alpha_maskCanvas rects_square8)
next
  case False
  then have "alpha (nearest (square 8 a) (0, 0, 8, 8) (4, 4, 8, 8) x y) = 0"
    by (intro nearest_outside) (simp, linarith)
  with False show ?thesis
    by (auto simp add: alpha_maskCanvas rects_square8)
qed

lemma square8_inner:
  "alpha (px (innerCanvas (refBrowser (square 8 a)) (square 8 a) 2) x y) =
     (if 2 \<le> x \<and> x < 14 \<and> 2 \<le> y \<and> y < 14 then a else 0)"
proof (cases "2 \<le> x \<and> x < 14 \<and> 2 \<le> y \<and> y < 14")
  case True
  have "alpha (nearest (maskCanvas (refBrowser (square 8 a)) (square 8 a))
          (4, 4, 8, 8) (2, 2, 12, 12) x y) = a"
    by (rule nearest_uniform [where ux = 4 and ux' = 12 and vy = 4 and vy' = 12])
       (use True in \<open>simp_all add: square8_mask\<close>)
  with True show ?thesis
    by (simp add: alpha_innerCanvas rects_square8)
next
  case False
  then have "alpha (nearest (maskCanvas (refBrowser (square 8 a)) (square 8 a))
          (4, 4, 8, 8) (2, 2, 12, 12) x y) = 0"
    by (intro nearest_outside) (simp, linarith)
  with False show ?thesis
    by (auto simp add: alpha_innerCanvas rects_square8)
qed

lemma square8_outer:
  "alpha (px (outerCanvas (refBrowser (square 8 a)) (square 8 a) 2 2) x y) =
     (if x < 16 \<and> y < 16 then a else 0)"
proof (cases "x < 16 \<and> y < 16")
  case True
  have "alpha (nearest (innerCanvas (refBrowser (square 8 a)) (square 8 a) 2)
          (2, 2, 12, 12) (0, 0, 16, 16) x y) = a"
    by (rule nearest_uniform [where ux = 2 and ux' = 14 and vy = 2 and vy' = 14])
       (use True in \<open>simp_all add: square8_inner\<close>)
  with True show ?thesis
    by (simp add: alpha_outerCanvas rects_square8)
next
  case False
  then show ?thesis
    by (auto simp add: alpha_outerCanvas rects_square8)
qed

text \<open>For the opaque square the outer silhouette does contain the inner one.\<close>

lemma square8_outer_contains_inner:
  "0 < alpha (px (innerCanvas (refBrowser (square 8 a)) (square 8 a) 2) x y) \<Longrightarrow>
   0 < alpha (px (outerCanvas (refBrowser (square 8 a)) (square 8 a) 2 2) x y)"
  by (simp add: square8_inner square8_outer split: if_splits)

lemma spread_demoOptions [simp]:
  "opts_gapPx (spread DEFAULT_OPTIONS demoOptions) = 2"
  "opts_strokePx (spread DEFAULT_OPTIONS demoOptions) = 2"
  "opts_color (spread DEFAULT_OPTIONS demoOptions) = ''#ffffff''"
  "opts_dotSizeRange (spread DEFAULT_OPTIONS demoOptions) = (3, 5)"
  "opts_jitterAmount (spread DEFAULT_OPTIONS demoOptions) = 15 / 10"
  by (simp_all add: spread_def DEFAULT_OPTIONS_def demoOptions_def noOptions_def)

lemma square8_ring:
  "alpha (px (ringCanvas (refBrowser (square 8 a)) (square 8 a)
               (spread DEFAULT_OPTIONS demoOptions)) x y) =
     (if x < 16 \<and> y < 16 then mul255 255 (mul255 a (255 - (if 2 \<le> x \<and> x < 14 \<and> 2 \<le> y \<and> y < 14 then a else 0)))
      else 0)"
  by (simp add: alpha_ringCanvas square8_inner square8_outer)

lemma demo_ring:
  "alpha (px demoRing x y) =
     (if x < 16 \<and> y < 16 \<and> \<not> (2 \<le> x \<and> x < 14 \<and> 2 \<le> y \<and> y < 14) then 255 else 0)"
  by (simp add: demoRing_def demoBrowser_def demoImage_def square8_ring)

lemma size_demoRing [simp]: "width demoRing = 16" "height demoRing = 16"
  by (simp_all add: demoRing_def demoImage_def)

lemma demoBrowser_simps [simp]:
  "getContext demoBrowser w h"
  "fillArc demoBrowser = disc"
  "fillStyle demoBrowser ''#ffffff'' = \<lparr>red = 255, green = 255, blue = 255, alpha = 255\<rparr>"
  by (simp_all add: demoBrowser_def)

lemma demo_createBorderMask:
  "createBorderMask demoBrowser ''cutout.png'' demoOptions rng = (Inr demoRing, rng)"
  by (simp add: createBorderMask_def demoBrowser_def demoImage_def demoRing_def getImageData_def)

lemma soft_createBorderMask:
  "createBorderMask softBrowser ''cutout.png'' demoOptions rng
     = (Inr (ringCanvas softBrowser softImage (spread DEFAULT_OPTIONS demoOptions)), rng)"
  by (simp add: createBorderMask_def softBrowser_def softImage_def getImageData_def)

lemma strides_16: "strides 16 4 = [0, 4, 8, 12]"
  by (simp add: strides_def upt_rec)

lemma demo_regions:
  assumes "\<forall>x y. x < 16 \<longrightarrow> y < 16 \<longrightarrow> px d x y = px demoRing x y"
  shows "contourRegions d 16 16 4 = demoRegions"
  using assms by (simp add: contourRegions_def strides_16 demo_ring demoRegions_def)

lemma demoRegions_simps: "density demoRegions = 500" "length demoRegions = 7" "demoRegions \<noteq> []"
  by (simp_all add: density_def demoRegions_def)

lemma dotTape_period: "(\<lambda>n. dotTape (Suc (Suc (Suc (Suc (Suc (Suc (Suc n)))))))) = dotTape"
proof
  fix n
  have "Suc (Suc (Suc (Suc (Suc (Suc (Suc n)))))) = n + 7"
    by simp
  then show "dotTape (Suc (Suc (Suc (Suc (Suc (Suc (Suc n))))))) = dotTape n"
    by (simp add: dotTape_def)
qed

text \<open>On \<open>dotTape\<close> every round draws the same dot, of radius 2 about \<open>(12, 0)\<close>.\<close>

lemma demo_step:
  "stippleStep demoBrowser (spread DEFAULT_OPTIONS demoOptions) 16 16 4 demoRegions st dotTape =
     (Inr (st\<lparr>stencil := paint SourceOver (\<lambda>px py. white demoBrowser (disc 12 0 2 px py))
                            (stencil st)\<rparr>),
      dotTape)"
  apply (simp add: stippleStep_def Math_random_def random_def Let_def dotTape_period dotRatio_def)
  apply (simp add: dotTape_def demoRegions_def)
  done

lemma dotted_step:
  assumes "width (stencil st) = 16" "height (stencil st) = 16"
  shows "dotted (st\<lparr>stencil := paint SourceOver (\<lambda>px py. white demoBrowser (disc 12 0 2 px py))
                               (stencil st)\<rparr>)"
  using assms
  by (simp add: dotted_def alpha_px_paint alpha_blend white_def disc_def power2_eq_square)

lemma demo_stipple_dotted:
  "dotted st \<Longrightarrow>
   \<exists>st'. stipple demoBrowser (spread DEFAULT_OPTIONS demoOptions) 16 16 4 demoRegions n st dotTape
            = (Inr st', dotTape) \<and> dotted st'"
proof (induction n arbitrary: st)
  case 0
  then show ?case
    by simp
next
  case (Suc n)
  have "dotted (st\<lparr>stencil := paint SourceOver (\<lambda>px py. white demoBrowser (disc 12 0 2 px py))
                                (stencil st)\<rparr>)"
    using Suc.prems by (intro dotted_step) (simp_all add: dotted_def)
  from Suc.IH [OF this] show ?case
    by (simp add: demo_step)
qed

lemma demo_stipple:
  "\<exists>st'. stipple demoBrowser (spread DEFAULT_OPTIONS demoOptions) 16 16 4 demoRegions (Suc n)
            \<lparr>stencil = createCanvas 16 16, lineWidth = 1\<rparr> dotTape = (Inr st', dotTape)
         \<and> dotted st'"
proof -
  have "dotted (\<lparr>stencil = createCanvas 16 16, lineWidth = 1\<rparr>
          \<lparr>stencil := paint SourceOver (\<lambda>px py. white demoBrowser (disc 12 0 2 px py))
             (stencil \<lparr>stencil = createCanvas 16 16, lineWidth = 1\<rparr>)\<rparr>)"
    by (intro dotted_step) simp_all
  from demo_stipple_dotted [OF this, of n] show ?thesis
    by (simp add: demo_step)
qed

lemma demo_stippled:
  "\<exists>c. applyHandDrawnEffect demoBrowser demoRing demoOptions dotTape = (Inr c, dotTape)
       \<and> alpha (px c 12 0) = 255"
proof -
  obtain d where d: "getImageData demoRing 0 0 16 16 = Inr d"
    and px: "\<forall>x y. x < 16 \<longrightarrow> y < 16 \<longrightarrow> px d x y = px demoRing x y"
    using getImageData_whole [of demoRing] by auto
  have regions: "contourRegions d 16 16 4 = demoRegions"
    using px by (rule demo_regions)
  obtain st' where st':
    "stipple demoBrowser (spread DEFAULT_OPTIONS demoOptions) 16 16 4 demoRegions 500
       \<lparr>stencil = createCanvas 16 16, lineWidth = 1\<rparr> dotTape = (Inr st', dotTape)"
    and dotted: "dotted st'"
    using demo_stipple [of 499] by auto
  have "applyHandDrawnEffect demoBrowser demoRing demoOptions dotTape
      = (Inr (drawImage3 DestinationIn (stencil st') 0 0 demoRing), dotTape)"
    by (simp add: applyHandDrawnEffect_def d sampleRate_def regions demoRegions_simps st')
  moreover have "alpha (px (drawImage3 DestinationIn (stencil st') 0 0 demoRing) 12 0) = 255"
    using dotted by (simp add: alpha_drawImage3_origin alpha_blend demo_ring dotted_def)
  ultimately show ?thesis
    by blast
qed

text \<open>On \<open>zeroTape\<close> every round is skipped and the stencil stays empty.\<close>

lemma zeroTape_const: "(\<lambda>n. 0) = zeroTape"
  by (rule ext) (simp add: zeroTape_def)

lemma zero_step:
  "stippleStep demoBrowser opts 16 16 4 demoRegions st zeroTape = (Inr st, zeroTape)"
  by (simp add: stippleStep_def Math_random_def zeroTape_def demoRegions_def zeroTape_const)

lemma zero_stipple:
  "stipple demoBrowser opts 16 16 4 demoRegions n st zeroTape = (Inr st, zeroTape)"
  by (induction n) (simp_all add: zero_step)

lemma demo_unstippled:
  "\<exists>c. applyHandDrawnEffect demoBrowser demoRing demoOptions zeroTape = (Inr c, zeroTape)
       \<and> alpha (px c 12 0) = 0"
proof -
  obtain d where d: "getImageData demoRing 0 0 16 16 = Inr d"
    and px: "\<forall>x y. x < 16 \<longrightarrow> y < 16 \<longrightarrow> px d x y = px demoRing x y"
    using getImageData_whole [of demoRing] by auto
  have regions: "contourRegions d 16 16 4 = demoRegions"
    using px by (rule demo_regions)
  have "applyHandDrawnEffect demoBrowser demoRing demoOptions zeroTape
      = (Inr (drawImage3 DestinationIn (createCanvas 16 16) 0 0 demoRing), zeroTape)"
    by (simp add: applyHandDrawnEffect_def d sampleRate_def regions demoRegions_simps
        zero_stipple)
  moreover have "alpha (px (drawImage3 DestinationIn (createCanvas 16 16) 0 0 demoRing) 12 0) = 0"
    by (simp add: alpha_drawImage3_origin alpha_blend)
  ultimately show ?thesis
    by blast
qed


subsection \<open>Images of side 40 under the default options\<close>






text \<open>
  A square image of side 40 and uniform alpha \<open>a\<close> under the default gap and stroke: the
  three silhouettes are the squares \<open>[20, 60)\<^sup>2\<close>, \<open>[10, 70)\<^sup>2\<close> and \<open>[5, 75)\<^sup>2\<close>.
\<close>

lemma rects_square40:
  "imageRect (square 40 a) = (20, 20, 40, 40)"
  "innerRect (square 40 a) 10 = (10, 10, 60, 60)"
  "outerRect (square 40 a) 10 5 = (5, 5, 70, 70)"
  by (simp_all add: imageRect_def innerRect_def outerRect_def imageX_def imageY_def)

lemma square40_mask:
  "alpha (px (maskCanvas (refBrowser (square 40 a)) (square 40 a)) x y) =
     (if 20 \<le> x \<and> x < 60 \<and> 20 \<le> y \<and> y < 60 then a else 0)"
proof (cases "20 \<le> x \<and> x < 60 \<and> 20 \<le> y \<and> y < 60")
  case True
  have "alpha (nearest (square 40 a) (0, 0, 40, 40) (20, 20, 40, 40) x y) = a"
    by (rule nearest_uniform [where ux = 0 and ux' = 40 and vy = 0 and vy' = 40])
       (use True in \<open>simp_all add: alpha_square\<close>)
  with True show ?thesis
    by (simp add: alpha_maskCanvas rects_square40)
next
  case False
  then have "alpha (nearest (square 40 a) (0, 0, 40, 40) (20, 20, 40, 40) x y) = 0"
    by (intro nearest_outside) (simp, linarith)
  with False show ?thesis
    by (auto simp add: alpha_maskCanvas rects_square40)
qed

lemma square40_inner:
  "alpha (px (innerCanvas (refBrowser (square 40 a)) (square 40 a) 10) x y) =
     (if 10 \<le> x \<and> x < 70 \<and> 10 \<le> y \<and> y < 70 then a else 0)"
proof (cases "10 \<le> x \<and> x < 70 \<and> 10 \<le> y \<and> y < 70")
  case True
  have "alpha (nearest (maskCanvas (refBrowser (square 40 a)) (square 40 a))
          (20, 20, 40, 40) (10, 10, 60, 60) x y) = a"
    by (rule nearest_uniform [where ux = 20 and ux' = 60 and vy = 20 and vy' = 60])
       (use True in \<open>simp_all add: square40_mask\<close>)
  with True show ?thesis
    by (simp add: alpha_innerCanvas rects_square40)
next
  case False
  then have "alpha (nearest (maskCanvas (refBrowser (square 40 a)) (square 40 a))
          (20, 20, 40, 40) (10, 10, 60, 60) x y) = 0"
    by (intro nearest_outside) (simp, linarith)
  with False show ?thesis
    by (auto simp add: alpha_innerCanvas rects_square40)
qed

lemma square40_outer:
  "alpha (px (outerCanvas (refBrowser (square 40 a)) (square 40 a) 10 5) x y) =
     (if 5 \<le> x \<and> x < 75 \<and> 5 \<le> y \<and> y < 75 then a else 0)"
proof (cases "5 \<le> x \<and> x < 75 \<and> 5 \<le> y \<and> y < 75")
  case True
  have "alpha (nearest (innerCanvas (refBrowser (square 40 a)) (square 40 a) 10)
          (10, 10, 60, 60) (5, 5, 70, 70) x y) = a"
    by (rule nearest_uniform [where ux = 10 and ux' = 70 and vy = 10 and vy' = 70])
       (use True in \<open>simp_all add: square40_inner\<close>)
  with True show ?thesis
    by (simp add: alpha_outerCanvas rects_square40)
next
  case False
  then have "alpha (nearest (innerCanvas (refBrowser (square 40 a)) (square 40 a) 10)
          (10, 10, 60, 60) (5, 5, 70, 70) x y) = 0"
    by (intro nearest_outside) (simp, linarith)
  with False show ?thesis
    by (auto simp add: alpha_outerCanvas rects_square40)
qed

lemma square40_ring:
  "alpha (px (ringCanvas (refBrowser (square 40 a)) (square 40 a) DEFAULT_OPTIONS) x y) =
     (if 5 \<le> x \<and> x < 75 \<and> 5 \<le> y \<and> y < 75
      then mul255 255 (mul255 a (255 - (if 10 \<le> x \<and> x < 70 \<and> 10 \<le> y \<and> y < 70 then a else 0)))
      else 0)"
  by (simp add: alpha_ringCanvas square40_inner square40_outer)

lemma square40_createBorderMask:
  "createBorderMask (refBrowser (square 40 a)) ''cutout.png'' noOptions rng
     = (Inr (ringCanvas (refBrowser (square 40 a)) (square 40 a) DEFAULT_OPTIONS), rng)"
  using createBorderMask_returns
          [of "refBrowser (square 40 a)" "''cutout.png''" "square 40 a" noOptions rng]
  by (simp add: spread_noOptions)

text \<open>The final canvas: the stippled ring over the image as the mask canvas holds it.\<close>

lemma applyContourBorder_final:
  assumes "loadImage b url = Some img"
    and "createBorderMask b url options rng = (Inr ring, rng)"
    and "applyHandDrawnEffect b ring options rng = (Inr stippled, rng')"
    and "getContext b (width img * 2) (height img * 2)"
    and "serializes b (width img * 2) (height img * 2)"
    and "0 < width img" "0 < height img"
  shows "fst (applyContourBorder b url options rng)
       = Inr (Png (drawImage3 SourceOver stippled 0 0 (maskCanvas b img)))"
  using assms by (simp add: applyContourBorder_def Let_def toDataURL_def maskCanvas_def)

lemma alpha_final:
  "alpha (px (drawImage3 SourceOver stippled 0 0 (maskCanvas b img)) x y) =
     (if x < width img * 2 \<and> y < height img * 2
      then (if x < width stippled \<and> y < height stippled then alpha (px stippled x y) else 0)
           + mul255 (alpha (px (maskCanvas b img) x y))
               (255 - (if x < width stippled \<and> y < height stippled
                       then alpha (px stippled x y) else 0))
      else 0)"
  by (simp add: alpha_drawImage3_origin alpha_blend)

subsection \<open>The transparent image\<close>

lemma clear_ring:
  "alpha (px (ringCanvas clearBrowser clearImage DEFAULT_OPTIONS) x y) = 0"
  by (simp add: clearBrowser_def clearImage_def square40_ring)

lemma no_alpha_no_regions:
  assumes "\<And>x y. alpha (px c x y) = 0"
    and "getImageData c 0 0 w h = Inr d"
  shows "contourRegions d w h rate = []"
proof -
  have "alpha (px d x y) = 0" for x y
    using assms by (auto simp: getImageData_def split: if_splits)
  then show ?thesis
    by (simp add: contourRegions_def)
qed

lemma clear_run:
  "fst (createBorderMask clearBrowser ''cutout.png'' noOptions rng)
     = Inr (ringCanvas clearBrowser clearImage DEFAULT_OPTIONS)"
  "fst (applyContourBorder clearBrowser ''cutout.png'' noOptions rng)
     = Inr (Png (drawImage3 SourceOver (ringCanvas clearBrowser clearImage DEFAULT_OPTIONS) 0 0
                   (maskCanvas clearBrowser clearImage)))"
proof -
  let ?ring = "ringCanvas clearBrowser clearImage DEFAULT_OPTIONS"
  have mask: "createBorderMask clearBrowser ''cutout.png'' noOptions rng = (Inr ?ring, rng)"
    by (simp add: clearBrowser_def clearImage_def square40_createBorderMask)
  then show "fst (createBorderMask clearBrowser ''cutout.png'' noOptions rng) = Inr ?ring"
    by simp
  have size: "width ?ring = 80" "height ?ring = 80"
    by (simp_all add: clearImage_def)
  obtain d where d: "getImageData ?ring 0 0 (width ?ring) (height ?ring) = Inr d"
    using getImageData_whole [of ?ring] size by auto
  have "contourRegions d (width ?ring) (height ?ring) (sampleRate (width ?ring) (height ?ring)) = []"
    using clear_ring d by (rule no_alpha_no_regions)
  then have "applyHandDrawnEffect clearBrowser ?ring noOptions rng = (Inr ?ring, rng)"
    using d by (simp add: applyHandDrawnEffect_def clearBrowser_def)
  with mask show "fst (applyContourBorder clearBrowser ''cutout.png'' noOptions rng)
     = Inr (Png (drawImage3 SourceOver ?ring 0 0 (maskCanvas clearBrowser clearImage)))"
    by (intro applyContourBorder_final) (simp_all add: clearBrowser_def clearImage_def)
qed

lemma clear_final:
  "alpha (px (drawImage3 SourceOver (ringCanvas clearBrowser clearImage DEFAULT_OPTIONS) 0 0
                (maskCanvas clearBrowser clearImage)) x y) = 0"
  by (simp add: alpha_final clear_ring)
     (simp add: clearBrowser_def clearImage_def square40_mask)

subsection \<open>The stipple pass on the opaque image of side 40\<close>

lemma large_ring:
  "alpha (px (ringCanvas largeBrowser largeImage DEFAULT_OPTIONS) x y) =
     (if 5 \<le> x \<and> x < 75 \<and> 5 \<le> y \<and> y < 75 \<and> \<not> (10 \<le> x \<and> x < 70 \<and> 10 \<le> y \<and> y < 70)
      then 255 else 0)"
  by (simp add: largeBrowser_def largeImage_def square40_ring)

lemma largeBrowser_simps [simp]:
  "getContext largeBrowser w h"
  "fillArc largeBrowser = disc"
  "fillStyle largeBrowser ''#ffffff'' = \<lparr>red = 255, green = 255, blue = 255, alpha = 255\<rparr>"
  "width largeImage = 40" "height largeImage = 40"
  by (simp_all add: largeBrowser_def largeImage_def)

lemma strides_80: "strides 80 4 = map (\<lambda>i. i * 4) [0..<20]"
  by (simp add: strides_def)

lemma large_regions:
  assumes "\<forall>x y. x < 80 \<longrightarrow> y < 80 \<longrightarrow>
             px d x y = px (ringCanvas largeBrowser largeImage DEFAULT_OPTIONS) x y"
  shows "contourRegions d 80 80 4 = largeRegions"
  using assms by (simp add: contourRegions_def strides_80 large_ring largeRegions_def upt_rec)

lemma largeRegions_simps:
  "density largeRegions = 500" "length largeRegions = 64" "largeRegions \<noteq> []"
  "largeRegions ! 32 = (72, 40)"
  by (simp_all add: density_def largeRegions_def upt_rec)

lemma large_step:
  "stippleStep largeBrowser DEFAULT_OPTIONS 80 80 4 largeRegions st dotTape =
     (Inr (st\<lparr>stencil := paint SourceOver (\<lambda>px py. white largeBrowser (disc 72 40 2 px py))
                            (stencil st)\<rparr>),
      dotTape)"
  apply (simp add: stippleStep_def Math_random_def random_def Let_def dotTape_period dotRatio_def
      largeRegions_simps)
  apply (simp add: dotTape_def largeRegions_simps DEFAULT_OPTIONS_def)
  done

lemma dottedLarge_step:
  assumes "width (stencil st) = 80" "height (stencil st) = 80"
  shows "dottedLarge (st\<lparr>stencil := paint SourceOver
                                       (\<lambda>px py. white largeBrowser (disc 72 40 2 px py))
                                       (stencil st)\<rparr>)"
  using assms
  by (simp add: dottedLarge_def alpha_px_paint alpha_blend white_def disc_def power2_eq_square)

lemma large_stipple_dotted:
  "dottedLarge st \<Longrightarrow>
   \<exists>st'. stipple largeBrowser DEFAULT_OPTIONS 80 80 4 largeRegions n st dotTape
            = (Inr st', dotTape) \<and> dottedLarge st'"
proof (induction n arbitrary: st)
  case 0
  then show ?case
    by simp
next
  case (Suc n)
  have "dottedLarge (st\<lparr>stencil := paint SourceOver
                                      (\<lambda>px py. white largeBrowser (disc 72 40 2 px py))
                                      (stencil st)\<rparr>)"
    using Suc.prems by (intro dottedLarge_step) (simp_all add: dottedLarge_def)
  from Suc.IH [OF this] show ?case
    by (simp add: large_step)
qed

lemma large_stipple:
  "\<exists>st'. stipple largeBrowser DEFAULT_OPTIONS 80 80 4 largeRegions (Suc n)
            \<lparr>stencil = createCanvas 80 80, lineWidth = 1\<rparr> dotTape = (Inr st', dotTape)
         \<and> dottedLarge st'"
proof -
  have "dottedLarge (\<lparr>stencil = createCanvas 80 80, lineWidth = 1\<rparr>
          \<lparr>stencil := paint SourceOver (\<lambda>px py. white largeBrowser (disc 72 40 2 px py))
             (stencil \<lparr>stencil = createCanvas 80 80, lineWidth = 1\<rparr>)\<rparr>)"
    by (intro dottedLarge_step) simp_all
  from large_stipple_dotted [OF this, of n] show ?thesis
    by (simp add: large_step)
qed

lemma large_stippled:
  "\<exists>c. applyHandDrawnEffect largeBrowser (ringCanvas largeBrowser largeImage DEFAULT_OPTIONS)
          noOptions dotTape = (Inr c, dotTape)
       \<and> width c = 80 \<and> height c = 80
       \<and> alpha (px c 72 40) = 255 \<and> alpha (px c 40 40) = 0"
proof -
  let ?ring = "ringCanvas largeBrowser largeImage DEFAULT_OPTIONS"
  have size: "width ?ring = 80" "height ?ring = 80"
    by simp_all
  obtain d where d: "getImageData ?ring 0 0 80 80 = Inr d"
    and px: "\<forall>x y. x < 80 \<longrightarrow> y < 80 \<longrightarrow> px d x y = px ?ring x y"
    using getImageData_whole [of ?ring] by (auto simp: size)
  have regions: "contourRegions d 80 80 4 = largeRegions"
    using px by (rule large_regions)
  obtain st' where st':
    "stipple largeBrowser DEFAULT_OPTIONS 80 80 4 largeRegions 500
       \<lparr>stencil = createCanvas 80 80, lineWidth = 1\<rparr> dotTape = (Inr st', dotTape)"
    and dotted: "dottedLarge st'"
    using large_stipple [of 499] by auto
  have "applyHandDrawnEffect largeBrowser ?ring noOptions dotTape
      = (Inr (drawImage3 DestinationIn (stencil st') 0 0 ?ring), dotTape)"
    by (simp add: applyHandDrawnEffect_def size d sampleRate_def regions largeRegions_simps st'
        spread_noOptions)
  moreover have "alpha (px (drawImage3 DestinationIn (stencil st') 0 0 ?ring) 72 40) = 255"
    "alpha (px (drawImage3 DestinationIn (stencil st') 0 0 ?ring) 40 40) = 0"
    using dotted by (simp_all add: alpha_drawImage3_origin alpha_blend large_ring dottedLarge_def)
  ultimately show ?thesis
    by (simp add: size)
qed

lemma large_run:
  "\<exists>final. fst (applyContourBorder largeBrowser ''cutout.png'' noOptions dotTape) = Inr (Png final)
     \<and> width final = 80 \<and> height final = 80
     \<and> alpha (px final 72 40) = 255 \<and> alpha (px final 40 40) = 255"
proof -
  let ?ring = "ringCanvas largeBrowser largeImage DEFAULT_OPTIONS"
  have mask: "createBorderMask largeBrowser ''cutout.png'' noOptions dotTape = (Inr ?ring, dotTape)"
    by (simp add: largeBrowser_def largeImage_def square40_createBorderMask)
  obtain c where c: "applyHandDrawnEffect largeBrowser ?ring noOptions dotTape = (Inr c, dotTape)"
    and size: "width c = 80" "height c = 80"
    and a: "alpha (px c 72 40) = 255" "alpha (px c 40 40) = 0"
    using large_stippled by blast
  have "fst (applyContourBorder largeBrowser ''cutout.png'' noOptions dotTape)
      = Inr (Png (drawImage3 SourceOver c 0 0 (maskCanvas largeBrowser largeImage)))"
    using mask c by (intro applyContourBorder_final) (simp_all add: largeBrowser_def largeImage_def)
  moreover have "alpha (px (drawImage3 SourceOver c 0 0 (maskCanvas largeBrowser largeImage)) 72 40)
      = 255"
    "alpha (px (drawImage3 SourceOver c 0 0 (maskCanvas largeBrowser largeImage)) 40 40) = 255"
    by (simp_all add: alpha_final size a)
       (simp_all add: largeBrowser_def largeImage_def square40_mask)
  ultimately show ?thesis
    by simp
qed

section \<open>The claims\<close>

subsection \<open>C1: the outer silhouette and the inner one\<close>




subsection \<open>C2: stipple marks stay inside the ring\<close>

text \<open>
  C2: whatever the browser, the ring, the config and the random tape, a pixel of positive
  alpha in the canvas that \<^verbatim>\<open>applyHandDrawnEffect\<close> leaves had positive alpha in the
  solid ring it was given.
\<close>

theorem stipple_inside_ring:
  assumes "fst (applyHandDrawnEffect b ring options rng) = Inr stippled"
    and "0 < alpha (px stippled x y)"
  shows "0 < alpha (px ring x y)"
  using applyHandDrawnEffect_Inr [OF assms(1)] assms(2)
  by (auto simp: alpha_drawImage3_origin alpha_blend split: if_splits dest: mul255_pos)

theorem stipple_inside_ring_witness:
  "\<exists>c. fst (applyHandDrawnEffect demoBrowser demoRing demoOptions dotTape) = Inr c
       \<and> 0 < alpha (px c 12 0) \<and> 0 < alpha (px demoRing 12 0)"
proof -
  obtain c where c: "applyHandDrawnEffect demoBrowser demoRing demoOptions dotTape = (Inr c, dotTape)"
    and a: "alpha (px c 12 0) = 255"
    using demo_stippled by blast
  have 1: "fst (applyHandDrawnEffect demoBrowser demoRing demoOptions dotTape) = Inr c"
    by (simp add: c)
  have 2: "0 < alpha (px c 12 0)"
    by (simp add: a)
  from stipple_inside_ring [OF 1 2] 1 2 show ?thesis
    by blast
qed

subsection \<open>C3: the ring and the inner silhouette\<close>

text \<open>
  C3, as stated: the ring has alpha 0 wherever the inner silhouette has positive alpha.
  Destination-out scales the outer alpha by \<open>255 - inner alpha\<close>, so a partly transparent
  pixel of the inner silhouette leaves a part of the ring.  For an image of alpha 128
  throughout and \<open>gapPx = strokePx = 2\<close>, the ring and the inner silhouette both have
  positive alpha at \<open>(8, 8)\<close>.
\<close>

theorem ring_meets_soft_inner_counterexample:
  "\<exists>ring. fst (createBorderMask softBrowser ''cutout.png'' demoOptions dotTape) = Inr ring
     \<and> 0 < alpha (px ring 8 8)
     \<and> 0 < alpha (px (innerCanvas softBrowser softImage 2) 8 8)"
  by (simp add: soft_createBorderMask)
     (simp add: softBrowser_def softImage_def square8_ring square8_inner mul255_def)

text \<open>
  C3, amended: the ring that \<^verbatim>\<open>createBorderMask\<close> returns has alpha 0 wherever the inner
  silhouette is fully opaque (alpha 255).
\<close>

theorem ring_avoids_opaque_inner:
  assumes "fst (createBorderMask b url options rng) = Inr ring"
    and "loadImage b url = Some img"
    and "alpha (px (innerCanvas b img (opts_gapPx (spread DEFAULT_OPTIONS options))) x y) = 255"
  shows "alpha (px ring x y) = 0"
  using createBorderMask_Inr [OF assms(1)] assms(2,3)
  by (auto simp: alpha_ringCanvas)

theorem ring_avoids_opaque_inner_witness:
  "fst (createBorderMask demoBrowser ''cutout.png'' demoOptions dotTape) = Inr demoRing
   \<and> loadImage demoBrowser ''cutout.png'' = Some demoImage
   \<and> alpha (px (innerCanvas demoBrowser demoImage
                  (opts_gapPx (spread DEFAULT_OPTIONS demoOptions))) 8 8) = 255
   \<and> alpha (px demoRing 8 8) = 0"
proof -
  have 1: "fst (createBorderMask demoBrowser ''cutout.png'' demoOptions dotTape) = Inr demoRing"
    by (simp add: demo_createBorderMask)
  have 2: "loadImage demoBrowser ''cutout.png'' = Some demoImage"
    by (simp add: demoBrowser_def)
  have 3: "alpha (px (innerCanvas demoBrowser demoImage
                  (opts_gapPx (spread DEFAULT_OPTIONS demoOptions))) 8 8) = 255"
    by (simp add: demoBrowser_def demoImage_def square8_inner)
  from ring_avoids_opaque_inner [OF 1 2 3] 1 2 3 show ?thesis
    by blast
qed

subsection \<open>C4: the size of the working canvas\<close>

text \<open>
  C4 says that the canvas of twice the image's size holds the outer silhouette's box of
  \<open>W + 2 (gapPx + strokePx)\<close> by \<open>H + 2 (gapPx + strokePx)\<close>.  It does only while
  \<open>2 (gapPx + strokePx) \<le> min W H\<close>.  On a 20 by 20 image with the default options the
  call returns a 40 by 40 image, while the outer box is 50 by 50 and starts at
  \<open>(-5, -5)\<close>: the border is cut off at the canvas edge.
\<close>

theorem default_border_clipped_on_small_image:
  "\<exists>c. fst (applyContourBorder smallBrowser ''cutout.png'' noOptions dotTape) = Inr (Png c)
     \<and> width c = 40 \<and> height c = 40
     \<and> outerRect smallImage (opts_gapPx (spread DEFAULT_OPTIONS noOptions))
          (opts_strokePx (spread DEFAULT_OPTIONS noOptions)) = (- 5, - 5, 50, 50)"
proof -
  have "\<exists>c. fst (applyContourBorder smallBrowser ''cutout.png'' noOptions dotTape) = Inr (Png c)
          \<and> width c = width smallImage * 2 \<and> height c = height smallImage * 2"
    by (rule applyContourBorder_returns)
       (simp_all add: smallBrowser_def smallImage_def unit_dotTape spread_noOptions)
  moreover have "outerRect smallImage (opts_gapPx (spread DEFAULT_OPTIONS noOptions))
          (opts_strokePx (spread DEFAULT_OPTIONS noOptions)) = (- 5, - 5, 50, 50)"
    by (simp add: spread_noOptions outerRect_def innerRect_def imageX_def imageY_def
        smallImage_def)
  ultimately show ?thesis
    by (simp add: smallImage_def)
qed

subsection \<open>C5: the geometry does not depend on the random tape\<close>

text \<open>
  C5: \<^verbatim>\<open>createBorderMask\<close> returns the same ring (or the same error) on every random tape
  and reads nothing from the tape.  The stipple pass does depend on it: on the example
  ring, one tape draws a dot over pixel \<open>(12, 0)\<close> and another leaves it empty.
\<close>

theorem createBorderMask_deterministic:
  "fst (createBorderMask b url options rng) = fst (createBorderMask b url options rng')
   \<and> snd (createBorderMask b url options rng) = rng
   \<and> fst (applyHandDrawnEffect demoBrowser demoRing demoOptions dotTape)
       \<noteq> fst (applyHandDrawnEffect demoBrowser demoRing demoOptions zeroTape)"
proof -
  obtain c where c: "applyHandDrawnEffect demoBrowser demoRing demoOptions dotTape = (Inr c, dotTape)"
    and a: "alpha (px c 12 0) = 255"
    using demo_stippled by blast
  obtain c0 where c0: "applyHandDrawnEffect demoBrowser demoRing demoOptions zeroTape = (Inr c0, zeroTape)"
    and a0: "alpha (px c0 12 0) = 0"
    using demo_unstippled by blast
  have "c \<noteq> c0"
    using a a0 by auto
  then show ?thesis
    using createBorderMask_fst [of b url options rng rng'] createBorderMask_tape [of b url options rng]
    by (simp add: c c0)
qed

subsection \<open>C6: the spacing field\<close>

text \<open>
  C6 says that \<^verbatim>\<open>spacing\<close> controls the target number of primitives.  The field is
  documented and merged into \<^verbatim>\<open>opts\<close>, yet nothing reads it: two configs that differ only
  in \<^verbatim>\<open>spacing\<close> give the same stippled canvas and the same return value on the same random
  tape, for every browser and image.
\<close>

theorem spacing_ignored:
  "applyHandDrawnEffect b c (options\<lparr>spacing := s\<rparr>) rng
     = applyHandDrawnEffect b c (options\<lparr>spacing := s'\<rparr>) rng
   \<and> applyContourBorder b url (options\<lparr>spacing := s\<rparr>) rng
     = applyContourBorder b url (options\<lparr>spacing := s'\<rparr>) rng"
  using spacing_applyHandDrawnEffect spacing_applyContourBorder by blast

subsection \<open>C7: ranges with min above max\<close>





subsection \<open>C8: the empty config\<close>

text \<open>
  C8, as stated, promises a non-empty ring along with the equal results.  The ring is empty
  whenever the image gives it nothing to follow: for a fully transparent image of side 40
  the call with the empty config returns an image, and neither the ring nor that image
  has a pixel of positive alpha.
\<close>

theorem empty_config_empty_ring_counterexample:
  "\<exists>ring final.
     fst (createBorderMask clearBrowser ''cutout.png'' noOptions dotTape) = Inr ring
     \<and> (\<forall>x y. alpha (px ring x y) = 0)
     \<and> fst (applyContourBorder clearBrowser ''cutout.png'' noOptions dotTape) = Inr (Png final)
     \<and> (\<forall>x y. alpha (px final x y) = 0)"
  using clear_run [of dotTape] clear_ring clear_final by blast

text \<open>
  C8, amended: the empty config and the config that spells out the documented defaults
  merge to the same options, so for every browser, image and random tape they give the same
  ring and the same return value (same dimensions, same pixels).  The ring is non-empty
  for some images, not for all: for the opaque image of side 40 the call returns an image
  of side 80 that shows the photo, at \<open>(40, 40)\<close>, and a mark of the border at \<open>(72, 40)\<close>,
  where the ring has alpha 255 and the photo as drawn on the canvas has none.
\<close>

theorem empty_config_is_documented_defaults:
  "spread DEFAULT_OPTIONS noOptions = spread DEFAULT_OPTIONS documentedDefaults
   \<and> createBorderMask b url noOptions rng = createBorderMask b url documentedDefaults rng
   \<and> applyContourBorder b url noOptions rng = applyContourBorder b url documentedDefaults rng
   \<and> (\<exists>ring final.
         fst (createBorderMask largeBrowser ''cutout.png'' noOptions dotTape) = Inr ring
         \<and> alpha (px ring 72 40) = 255
         \<and> alpha (px (maskCanvas largeBrowser largeImage) 72 40) = 0
         \<and> fst (applyContourBorder largeBrowser ''cutout.png'' noOptions dotTape)
             = Inr (Png final)
         \<and> width final = 80 \<and> height final = 80
         \<and> alpha (px final 72 40) = 255 \<and> alpha (px final 40 40) = 255)"
proof -
  have 0: "spread DEFAULT_OPTIONS noOptions = spread DEFAULT_OPTIONS documentedDefaults"
    by (simp add: spread_noOptions spread_documentedDefaults)
  have 1: "createBorderMask b url noOptions r = createBorderMask b url documentedDefaults r" for r
    by (rule createBorderMask_reads) (simp_all add: 0)
  have 2: "applyHandDrawnEffect b c noOptions r = applyHandDrawnEffect b c documentedDefaults r"
    for c r
    by (rule applyHandDrawnEffect_reads) (simp_all add: 0)
  have 3: "fst (createBorderMask largeBrowser ''cutout.png'' noOptions dotTape)
      = Inr (ringCanvas largeBrowser largeImage DEFAULT_OPTIONS)"
    by (simp add: largeBrowser_def largeImage_def square40_createBorderMask)
  have 4: "alpha (px (ringCanvas largeBrowser largeImage DEFAULT_OPTIONS) 72 40) = 255"
    by (simp add: large_ring)
  have 5: "alpha (px (maskCanvas largeBrowser largeImage) 72 40) = 0"
    by (simp add: largeBrowser_def largeImage_def square40_mask)
  show ?thesis
    using 0 1 applyContourBorder_reads [OF 1 2] 3 4 5 large_run by blast
qed

subsection \<open>C9: no candidate points\<close>

text \<open>
  C9: when the canvas has a context and a non-empty size (so that its image data can be
  read) and the grid sampling finds no candidate point, \<^verbatim>\<open>applyHandDrawnEffect\<close> returns
  normally, the canvas is as it was and no random number has been drawn.
\<close>

theorem no_candidates_unchanged:
  assumes "getContext b (width c) (height c)"
    and "getImageData c 0 0 (width c) (height c) = Inr borderData"
    and "contourRegions borderData (width c) (height c) (sampleRate (width c) (height c)) = []"
  shows "applyHandDrawnEffect b c options rng = (Inr c, rng)"
  using assms by (simp add: applyHandDrawnEffect_def)

theorem no_candidates_unchanged_witness:
  "\<exists>d. getContext demoBrowser (width (createCanvas 8 8)) (height (createCanvas 8 8))
     \<and> getImageData (createCanvas 8 8) 0 0 (width (createCanvas 8 8)) (height (createCanvas 8 8))
         = Inr d
     \<and> contourRegions d (width (createCanvas 8 8)) (height (createCanvas 8 8))
         (sampleRate (width (createCanvas 8 8)) (height (createCanvas 8 8))) = []
     \<and> applyHandDrawnEffect demoBrowser (createCanvas 8 8) noOptions dotTape
         = (Inr (createCanvas 8 8), dotTape)"
proof -
  let ?c = "createCanvas 8 8"
  obtain d where d: "getImageData ?c 0 0 (width ?c) (height ?c) = Inr d"
    and px: "\<forall>x y. x < width ?c \<longrightarrow> y < height ?c \<longrightarrow> px d x y = px ?c x y"
    using getImageData_whole [of ?c] by auto
  have 1: "getContext demoBrowser (width ?c) (height ?c)"
    by simp
  have 3: "contourRegions d (width ?c) (height ?c) (sampleRate (width ?c) (height ?c)) = []"
    using px by (simp add: contourRegions_def sampleRate_def strides_def upt_rec)
  from no_candidates_unchanged [OF 1 d 3, of noOptions dotTape] 1 d 3 show ?thesis
    by blast
qed

subsection \<open>C10: the deprecated borderScale\<close>

text \<open>
  C10: two configs that differ only in \<^verbatim>\<open>borderScale\<close> give the same ring, the same
  stippled canvas on the same random tape, and the same final image.
\<close>

theorem borderScale_ignored:
  "createBorderMask b url (options\<lparr>borderScale := s\<rparr>) rng
     = createBorderMask b url (options\<lparr>borderScale := s'\<rparr>) rng
   \<and> applyHandDrawnEffect b c (options\<lparr>borderScale := s\<rparr>) rng
     = applyHandDrawnEffect b c (options\<lparr>borderScale := s'\<rparr>) rng
   \<and> applyContourBorder b url (options\<lparr>borderScale := s\<rparr>) rng
     = applyContourBorder b url (options\<lparr>borderScale := s'\<rparr>) rng"
proof -
  have 1: "createBorderMask b url (options\<lparr>borderScale := s\<rparr>) r
     = createBorderMask b url (options\<lparr>borderScale := s'\<rparr>) r" for r
    by (rule createBorderMask_reads) (simp_all add: spread_def)
  have 2: "applyHandDrawnEffect b d (options\<lparr>borderScale := s\<rparr>) r
     = applyHandDrawnEffect b d (options\<lparr>borderScale := s'\<rparr>) r" for d r
    by (rule applyHandDrawnEffect_reads) (simp_all add: spread_def)
  show ?thesis
    using 1 2 applyContourBorder_reads [OF 1 2] by blast
qed

end
